theory Spec2Isabelle
  imports Main "HOL-Library.Word" "HOL-Library.AList" "HOL-Library.Char_ord"
begin

unbundle bit_operations_syntax

section \<open>Conventions of the embedding\<close>

text \<open>
  The repository is a set of Streamlit lesson pages. Each page is a script that the
  framework runs from top to bottom on every interaction; the code of interest sits in
  the bodies of \<^verbatim>\<open>if st.form_submit_button(...)\<close> and \<^verbatim>\<open>if st.button(...)\<close>. Such a
  body is modelled as a function from the values of the widgets it reads and the part of
  \<^verbatim>\<open>st.session_state\<close> it uses to the updated state and the status messages it emits.

  \<^item> A Python \<^verbatim>\<open>str\<close> is a \<^typ>\<open>string\<close>, one \<^typ>\<open>char\<close> per code point (code points
    below 256), so \<^verbatim>\<open>len\<close> is \<^const>\<open>length\<close> and \<^verbatim>\<open>not s\<close> is \<open>s = []\<close>.
  \<^item> A Python \<^verbatim>\<open>int\<close> is an \<^typ>\<open>int\<close>.
  \<^item> \<^verbatim>\<open>st.success\<close>, \<^verbatim>\<open>st.error\<close>, \<^verbatim>\<open>st.info\<close> and \<^verbatim>\<open>st.warning\<close> are the constructors
    of \<open>msg\<close>. The text of a message is the source's text without the pictograph and
    the blank that start it (the theory is plain ASCII).
  \<^item> Calls that only draw (\<^verbatim>\<open>st.balloons\<close>, \<^verbatim>\<open>st.markdown\<close>, \<^verbatim>\<open>st.metric\<close>,
    \<^verbatim>\<open>st.caption\<close>) and \<^verbatim>\<open>st.rerun\<close>, which restarts the script with the state as it
    is, leave no trace in the model. What \<^verbatim>\<open>st.write\<close> prints is part of a result only
    where a handler's description says so (the score and feedback lines of the quiz and of
    the password check).
\<close>

datatype msg = Success string | Error string | Info string | Warning string

section \<open>hashlib.sha256(s.encode()).hexdigest()\<close>

text \<open>
  The pages hash passwords with the standard library. The digest is modelled in full
  (FIPS 180-4) rather than left abstract, so that the seeded user table below is a
  concrete value. \<open>encode\<close> is \<^verbatim>\<open>str.encode()\<close>, that is UTF-8. The round constants
  and the initial hash value are written in decimal.
\<close>

type_synonym byte = "8 word"
type_synonym u32 = "32 word"

definition utf8_char :: "char \<Rightarrow> byte list" where
  "utf8_char c =
     (let n = (of_char c :: nat)
      in if n < 128 then [of_nat n]
         else [of_nat (192 + n div 64), of_nat (128 + n mod 64)])"

definition encode :: "string \<Rightarrow> byte list" where
  "encode s = concat (map utf8_char s)"

definition rotr :: "nat \<Rightarrow> u32 \<Rightarrow> u32" where
  "rotr n x = drop_bit n x OR push_bit (32 - n) x"

definition ch :: "u32 \<Rightarrow> u32 \<Rightarrow> u32 \<Rightarrow> u32" where
  "ch x y z = (x AND y) XOR (NOT x AND z)"

definition maj :: "u32 \<Rightarrow> u32 \<Rightarrow> u32 \<Rightarrow> u32" where
  "maj x y z = (x AND y) XOR (x AND z) XOR (y AND z)"

definition bsig0 :: "u32 \<Rightarrow> u32" where
  "bsig0 x = rotr 2 x XOR rotr 13 x XOR rotr 22 x"

definition bsig1 :: "u32 \<Rightarrow> u32" where
  "bsig1 x = rotr 6 x XOR rotr 11 x XOR rotr 25 x"

definition ssig0 :: "u32 \<Rightarrow> u32" where
  "ssig0 x = rotr 7 x XOR rotr 18 x XOR drop_bit 3 x"

definition ssig1 :: "u32 \<Rightarrow> u32" where
  "ssig1 x = rotr 17 x XOR rotr 19 x XOR drop_bit 10 x"

definition sha256_k :: "u32 list" where
  "sha256_k =
    [1116352408, 1899447441, 3049323471, 3921009573, 961987163, 1508970993, 2453635748, 2870763221,
     3624381080, 310598401, 607225278, 1426881987, 1925078388, 2162078206, 2614888103, 3248222580,
     3835390401, 4022224774, 264347078, 604807628, 770255983, 1249150122, 1555081692, 1996064986,
     2554220882, 2821834349, 2952996808, 3210313671, 3336571891, 3584528711, 113926993, 338241895,
     666307205, 773529912, 1294757372, 1396182291, 1695183700, 1986661051, 2177026350, 2456956037,
     2730485921, 2820302411, 3259730800, 3345764771, 3516065817, 3600352804, 4094571909, 275423344,
     430227734, 506948616, 659060556, 883997877, 958139571, 1322822218, 1537002063, 1747873779,
     1955562222, 2024104815, 2227730452, 2361852424, 2428436474, 2756734187, 3204031479, 3329325298]"

definition sha256_h0 :: "u32 list" where
  "sha256_h0 =
    [1779033703, 3144134277, 1013904242, 2773480762, 1359893119, 2600822924, 528734635, 1541459225]"

text \<open>Padding: the byte 0x80, zero bytes up to 56 modulo 64, the bit length on 8 bytes.\<close>

definition sha256_pad :: "byte list \<Rightarrow> byte list" where
  "sha256_pad m =
     (let l = length m
      in m @ [0x80] @ replicate ((64 - (l + 9) mod 64) mod 64) 0
           @ map (\<lambda>i. ucast (drop_bit (8 * (7 - i)) (of_nat (8 * l) :: 64 word))) [0..<8])"

fun be_words :: "byte list \<Rightarrow> u32 list" where
  "be_words (a # b # c # d # r) =
     (push_bit 24 (ucast a) OR push_bit 16 (ucast b) OR push_bit 8 (ucast c) OR ucast d)
       # be_words r"
| "be_words _ = []"

text \<open>The message schedule: \<open>schedule 48\<close> extends the 16 words of a block to 64.\<close>

fun schedule :: "nat \<Rightarrow> u32 list \<Rightarrow> u32 list" where
  "schedule 0 w = w"
| "schedule (Suc n) w =
     (let i = length w
      in schedule n
           (w @ [ssig1 (w ! (i - 2)) + w ! (i - 7) + ssig0 (w ! (i - 15)) + w ! (i - 16)]))"

fun sha256_round :: "u32 list \<Rightarrow> u32 \<times> u32 \<Rightarrow> u32 list" where
  "sha256_round [a, b, c, d, e, f, g, h] (k, w) =
     (let t1 = h + bsig1 e + ch e f g + k + w;
          t2 = bsig0 a + maj a b c
      in [t1 + t2, a, b, c, d + t1, e, f, g])"
| "sha256_round s _ = s"

definition compress :: "u32 list \<Rightarrow> u32 list \<Rightarrow> u32 list" where
  "compress hs block =
     map2 (+) hs (foldl sha256_round hs (zip sha256_k (schedule 48 block)))"

fun sha256_blocks :: "u32 list \<Rightarrow> u32 list \<Rightarrow> u32 list" where
  "sha256_blocks hs [] = hs"
| "sha256_blocks hs (w # ws) =
     sha256_blocks (compress hs (take 16 (w # ws))) (drop 16 (w # ws))"

definition hex_digit :: "nat \<Rightarrow> char" where
  "hex_digit n = ''0123456789abcdef'' ! n"

definition hex_word :: "u32 \<Rightarrow> string" where
  "hex_word w = map (\<lambda>i. hex_digit (unat (drop_bit (4 * (7 - i)) w AND 15))) [0..<8]"

definition sha256_hexdigest :: "byte list \<Rightarrow> string" where
  "sha256_hexdigest m =
     concat (map hex_word (sha256_blocks sha256_h0 (be_words (sha256_pad m))))"

section \<open>Chapters 8 and 9: the session keys of the login demos\<close>

text \<open>
  An entry of \<^verbatim>\<open>st.session_state.users_db\<close> is a dictionary with the keys
  \<^verbatim>\<open>'password'\<close>, \<^verbatim>\<open>'role'\<close>, \<^verbatim>\<open>'email'\<close> and, in Chapter 8, \<^verbatim>\<open>'created'\<close>, in Chapter 9,
  \<^verbatim>\<open>'permissions'\<close>. The fields carry the prefix \<open>db_\<close> to keep the names \<open>password\<close>
  and \<open>role\<close> free for the handlers' local variables.
\<close>

record user_entry =
  db_password :: string
  db_role :: string
  db_email :: string
  db_created :: "string option"
  db_permissions :: "string list option"

text \<open>
  The keys \<^verbatim>\<open>authenticated\<close>, \<^verbatim>\<open>current_user\<close>, \<^verbatim>\<open>user_role\<close> and \<^verbatim>\<open>users_db\<close> of the session
  store; \<^verbatim>\<open>None\<close> is \<^const>\<open>None\<close>. Chapter 8 never touches \<^verbatim>\<open>user_role\<close>.
\<close>

record session =
  authenticated :: bool
  current_user :: "string option"
  user_role :: "string option"
  users_db :: "string \<rightharpoonup> user_entry"

text \<open>pages/08_authentication.py, lines 19-34: the table a fresh session starts with.\<close>

definition users_db_ch8 :: "string \<rightharpoonup> user_entry" where
  "users_db_ch8 =
     [''admin'' \<mapsto> \<lparr>db_password = sha256_hexdigest (encode ''admin123''), db_role = ''admin'',
                    db_email = ''admin@example.com'', db_created = Some ''2024-01-01'',
                    db_permissions = None\<rparr>,
      ''user1'' \<mapsto> \<lparr>db_password = sha256_hexdigest (encode ''user123''), db_role = ''user'',
                    db_email = ''user1@example.com'', db_created = Some ''2024-01-15'',
                    db_permissions = None\<rparr>]"

text \<open>pages/09_access_control.py, lines 21-48.\<close>

definition users_db_ch9 :: "string \<rightharpoonup> user_entry" where
  "users_db_ch9 =
     [''admin'' \<mapsto> \<lparr>db_password = sha256_hexdigest (encode ''admin123''), db_role = ''admin'',
                    db_email = ''admin@company.com'', db_created = None,
                    db_permissions =
                      Some [''read'', ''write'', ''delete'', ''manage_users'', ''view_analytics'']\<rparr>,
      ''manager'' \<mapsto> \<lparr>db_password = sha256_hexdigest (encode ''manager123''),
                    db_role = ''manager'', db_email = ''manager@company.com'', db_created = None,
                    db_permissions = Some [''read'', ''write'', ''view_analytics'']\<rparr>,
      ''user'' \<mapsto> \<lparr>db_password = sha256_hexdigest (encode ''user123''), db_role = ''user'',
                    db_email = ''user@company.com'', db_created = None,
                    db_permissions = Some [''read'', ''write'']\<rparr>,
      ''viewer'' \<mapsto> \<lparr>db_password = sha256_hexdigest (encode ''viewer123''), db_role = ''viewer'',
                    db_email = ''viewer@company.com'', db_created = None,
                    db_permissions = Some [''read'']\<rparr>]"

text \<open>
  pages/08_authentication.py, lines 314-335: the body of \<^verbatim>\<open>if submit:\<close> in the form
  \<^verbatim>\<open>login_form\<close>.
\<close>

definition login_form :: "session \<Rightarrow> string \<Rightarrow> string \<Rightarrow> session \<times> msg list" where
  "login_form s username password =
     (if username = [] \<or> password = [] then (s, [Error ''Please fill in all fields''])
      else
        let hashed_input = sha256_hexdigest (encode password)
        in case users_db s username of
             Some user_data \<Rightarrow>
               let stored_hash = db_password user_data
               in if hashed_input = stored_hash
                  then (s\<lparr>authenticated := True, current_user := Some username\<rparr>,
                        [Success ''Login successful!''])
                  else (s, [Error ''Invalid password''])
           | None \<Rightarrow> (s, [Error ''User not found'']))"

text \<open>
  pages/09_access_control.py, lines 317-331: the body of \<^verbatim>\<open>if submit:\<close> in the form
  \<^verbatim>\<open>rbac_login\<close>. There is no check for empty fields here.
\<close>

definition rbac_login :: "session \<Rightarrow> string \<Rightarrow> string \<Rightarrow> session \<times> msg list" where
  "rbac_login s username password =
     (case users_db s username of
        Some user_data \<Rightarrow>
          let hashed_input = sha256_hexdigest (encode password);
              stored_hash = db_password user_data
          in if hashed_input = stored_hash
             then (s\<lparr>authenticated := True, current_user := Some username,
                      user_role := Some (db_role user_data)\<rparr>,
                   [Success ''Login successful!''])
             else (s, [Error ''Invalid password''])
      | None \<Rightarrow> (s, [Error ''User not found'']))"

text \<open>
  pages/08_authentication.py, lines 360-394: the body of \<^verbatim>\<open>if register_submit:\<close> in the
  form \<^verbatim>\<open>register_form\<close>. \<open>role\<close> is the value of the select box and \<open>now\<close> the text
  of \<^verbatim>\<open>datetime.now().strftime(...)\<close>.
\<close>

definition register_errors :: "session \<Rightarrow> string \<Rightarrow> string \<Rightarrow> string \<Rightarrow> string \<Rightarrow> string list" where
  "register_errors s new_username new_email new_password confirm_password =
     (if new_username = [] \<or> new_password = [] \<or> new_email = []
      then [''All fields are required''] else [])
     @ (if users_db s new_username \<noteq> None then [''Username already exists''] else [])
     @ (if length new_password < 6 then [''Password must be at least 6 characters''] else [])
     @ (if new_password \<noteq> confirm_password then [''Passwords don't match''] else [])
     @ (if CHR ''@'' \<notin> set new_email then [''Invalid email format''] else [])"

definition register_form ::
  "session \<Rightarrow> string \<Rightarrow> string \<Rightarrow> string \<Rightarrow> string \<Rightarrow> string \<Rightarrow> string \<Rightarrow> session \<times> msg list" where
  "register_form s new_username new_email new_password confirm_password role now =
     (let errors = register_errors s new_username new_email new_password confirm_password
      in if errors \<noteq> [] then (s, map Error errors)
         else
           let hashed_password = sha256_hexdigest (encode new_password)
           in (s\<lparr>users_db := (users_db s)(new_username \<mapsto>
                     \<lparr>db_password = hashed_password, db_role = role, db_email = new_email,
                      db_created = Some now, db_permissions = None\<rparr>)\<rparr>,
               [Success (''Account created successfully! You can now login with username: ''
                          @ new_username)]))"

text \<open>
  The tables \<^verbatim>\<open>users_db\<close> that a session can hold: the one either chapter seeds, changed
  only by successful or failed registrations (no other page writes the key).
\<close>

inductive users_db_reachable :: "(string \<rightharpoonup> user_entry) \<Rightarrow> bool" where
  seeded_ch8: "users_db_reachable users_db_ch8"
| seeded_ch9: "users_db_reachable users_db_ch9"
| registered:
    "users_db_reachable (users_db s) \<Longrightarrow>
     users_db_reachable
       (users_db (fst (register_form s new_username new_email new_password confirm_password
                         role now)))"

section \<open>Chapter 9: the permissions test\<close>

text \<open>pages/09_access_control.py, lines 51-65. A dictionary literal, in the order written.\<close>

definition ROLE_PERMISSIONS :: "(string \<times> string list) list" where
  "ROLE_PERMISSIONS =
     [(''admin'', [''read'', ''write'', ''delete'', ''manage_users'', ''view_analytics'',
                   ''system_settings'']),
      (''manager'', [''read'', ''write'', ''view_analytics'', ''manage_team'']),
      (''user'', [''read'', ''write'', ''edit_profile'']),
      (''viewer'', [''read''])]"

definition PAGE_ACCESS :: "(string \<times> string list) list" where
  "PAGE_ACCESS =
     [(''home'', [''admin'', ''manager'', ''user'', ''viewer'']),
      (''dashboard'', [''admin'', ''manager'', ''user'']),
      (''analytics'', [''admin'', ''manager'']),
      (''users'', [''admin'']),
      (''settings'', [''admin''])]"

text \<open>
  Line 515: \<^verbatim>\<open>ROLE_PERMISSIONS.get(st.session_state.user_role, [])\<close>. The key may be
  \<^verbatim>\<open>None\<close> or a role that the dictionary does not have; both give the empty list.
\<close>

definition user_permissions :: "session \<Rightarrow> string list" where
  "user_permissions s =
     (case user_role s of
        None \<Rightarrow> []
      | Some r \<Rightarrow> (case map_of ROLE_PERMISSIONS r of None \<Rightarrow> [] | Some perms \<Rightarrow> perms))"

text \<open>
  The tab starts with \<^verbatim>\<open>if not st.session_state.authenticated: st.warning(...); st.stop()\<close>
  (lines 503-505): nothing below it runs for a visitor who is not logged in.
\<close>

datatype 'a tab = Stopped msg | Shown 'a

definition login_required :: msg where
  "login_required = Warning ''Please login in the RBAC Demo tab first''"

text \<open>
  Lines 546-552, the button \<^verbatim>\<open>Test Permission\<close>. The line written below the error (the
  roles that do have the permission) is left out.
\<close>

definition test_permission :: "session \<Rightarrow> string \<Rightarrow> msg tab" where
  "test_permission s test_perm =
     (if \<not> authenticated s then Stopped login_required
      else if test_perm \<in> set (user_permissions s)
        then Shown (Success (''You have '' @ [CHR 0x27] @ test_perm @ [CHR 0x27] @ '' permission!''))
        else Shown (Error (''You don't have '' @ [CHR 0x27] @ test_perm @ [CHR 0x27]
                            @ '' permission'')))"

text \<open>
  Lines 559-572, the loop over \<^verbatim>\<open>PAGE_ACCESS.items()\<close>: one verdict per page, in the order
  of the dictionary. \<^verbatim>\<open>st.session_state.user_role in allowed_roles\<close> is false for \<^verbatim>\<open>None\<close>.
\<close>

definition page_verdict :: "string option \<Rightarrow> string list \<Rightarrow> msg" where
  "page_verdict r allowed_roles =
     (if (case r of None \<Rightarrow> False | Some role \<Rightarrow> role \<in> set allowed_roles)
      then Success ''Access'' else Error ''Denied'')"

definition page_access_test :: "session \<Rightarrow> (string \<times> msg) list tab" where
  "page_access_test s =
     (if \<not> authenticated s then Stopped login_required
      else Shown (map (\<lambda>(page, allowed_roles). (page, page_verdict (user_role s) allowed_roles))
                   PAGE_ACCESS))"

section \<open>Chapter 13: the SQLite demo\<close>

text \<open>
  pages/13_database_api.py, lines 384-401: the \<^verbatim>\<open>CREATE TABLE IF NOT EXISTS users\<close>
  statement of \<^verbatim>\<open>init_database\<close>, column by column: name, declared type, constraints,
  default.
\<close>

datatype sql_type = INTEGER | TEXT | TIMESTAMP

datatype sql_constraint = PRIMARY_KEY_AUTOINCREMENT | NOT_NULL | UNIQUE

datatype sql_default = NO_DEFAULT | DEFAULT string | DEFAULT_CURRENT_TIMESTAMP

record sql_column =
  col_name :: string
  col_type :: sql_type
  col_constraints :: "sql_constraint list"
  col_default :: sql_default

definition users_table :: "sql_column list" where
  "users_table =
     [\<lparr>col_name = ''id'', col_type = INTEGER, col_constraints = [PRIMARY_KEY_AUTOINCREMENT],
       col_default = NO_DEFAULT\<rparr>,
      \<lparr>col_name = ''name'', col_type = TEXT, col_constraints = [NOT_NULL],
       col_default = NO_DEFAULT\<rparr>,
      \<lparr>col_name = ''email'', col_type = TEXT, col_constraints = [UNIQUE, NOT_NULL],
       col_default = NO_DEFAULT\<rparr>,
      \<lparr>col_name = ''role'', col_type = TEXT, col_constraints = [],
       col_default = DEFAULT ''user''\<rparr>,
      \<lparr>col_name = ''created_at'', col_type = TIMESTAMP, col_constraints = [],
       col_default = DEFAULT_CURRENT_TIMESTAMP\<rparr>]"

definition table_constraints :: "sql_column list \<Rightarrow> (string \<times> sql_constraint) list" where
  "table_constraints cols = concat (map (\<lambda>c. map (Pair (col_name c)) (col_constraints c)) cols)"

text \<open>
  The content of the table: its rows in the order of insertion, and the value that
  \<^verbatim>\<open>AUTOINCREMENT\<close> keeps in \<^verbatim>\<open>sqlite_sequence\<close>, the largest row id handed out so far,
  so that an id is never used twice. A column without \<^verbatim>\<open>NOT NULL\<close> can hold \<^verbatim>\<open>NULL\<close>,
  which is \<^const>\<open>None\<close>.
\<close>

record user_row =
  row_id :: int
  row_name :: string
  row_email :: string
  row_role :: "string option"
  row_created_at :: "string option"

record database =
  rows :: "user_row list"
  seq :: int

text \<open>
  A row id is a signed 64-bit integer. The largest id that the table has held is the
  larger of the recorded value and the ids of its rows.
\<close>

definition MAX_ROWID :: int where
  "MAX_ROWID = 9223372036854775807"

definition largest_rowid :: "database \<Rightarrow> int" where
  "largest_rowid d = foldr max (map row_id (rows d)) (seq d)"

text \<open>
  The exceptions of \<^verbatim>\<open>sqlite3\<close> that the insert can raise: \<^verbatim>\<open>IntegrityError\<close> for a
  violated constraint, \<^verbatim>\<open>OperationalError\<close> (database or disk is full) when no row id is
  left.
\<close>

datatype sql_error = IntegrityError | OperationalError

text \<open>
  What the engine does with
  \<^verbatim>\<open>INSERT INTO users (name, email, role) VALUES (?, ?, ?)\<close> under the constraints of
  \<open>users_table\<close>. It picks the row id first: once the largest id has been handed out,
  every insert is refused. Then a \<^verbatim>\<open>NULL\<close> name or email violates \<^verbatim>\<open>NOT NULL\<close> and an
  email that a row already has violates \<^verbatim>\<open>UNIQUE\<close>. Otherwise the row gets the id after
  the largest one and the current time \<open>now\<close> for the column left out. A refused insert
  changes nothing.
\<close>

definition insert_user ::
  "database \<Rightarrow> string option \<Rightarrow> string option \<Rightarrow> string option \<Rightarrow> string
     \<Rightarrow> sql_error + database" where
  "insert_user d name email role now =
     (if MAX_ROWID \<le> largest_rowid d then Inl OperationalError
      else
        case (name, email) of
          (Some n, Some e) \<Rightarrow>
            if e \<in> row_email ` set (rows d) then Inl IntegrityError
            else
              let new_id = largest_rowid d + 1
              in Inr \<lparr>rows = rows d @ [\<lparr>row_id = new_id, row_name = n, row_email = e,
                                        row_role = role, row_created_at = Some now\<rparr>],
                      seq = new_id\<rparr>
        | _ \<Rightarrow> Inl IntegrityError)"

text \<open>
  Lines 429-443: the body of \<^verbatim>\<open>if st.form_submit_button("Create User")\<close> in the form
  \<^verbatim>\<open>create_user\<close>, with \<^verbatim>\<open>except sqlite3.IntegrityError\<close> around the insert and the commit.
  No other exception is caught: it ends the run of the script with nothing shown by the
  handler, which is \<^const>\<open>Inl\<close>.
\<close>

definition create_user ::
  "database \<Rightarrow> string \<Rightarrow> string \<Rightarrow> string \<Rightarrow> string
     \<Rightarrow> sql_error + database \<times> msg list" where
  "create_user d name email role now =
     (if name = [] \<or> email = [] then Inr (d, [Error ''Name and email are required''])
      else
        case insert_user d (Some name) (Some email) (Some role) now of
          Inr d' \<Rightarrow>
            Inr (d', [Success (''User '' @ [CHR 0x27] @ name @ [CHR 0x27]
                                 @ '' created successfully!'')])
        | Inl IntegrityError \<Rightarrow> Inr (d, [Error ''Email already exists!''])
        | Inl OperationalError \<Rightarrow> Inl OperationalError)"

section \<open>Chapter 8: the quiz\<close>

text \<open>
  pages/08_authentication.py, lines 619-665: the body of \<^verbatim>\<open>if st.button("Check Answers")\<close>.
  \<open>q1\<close>, \<open>q2\<close>, \<open>q3\<close> and \<open>q5\<close> are the selected radio options, \<open>q4\<close> the check box. The
  result is the score, the feedback lines and the closing message.
\<close>

definition check_answers ::
  "string \<Rightarrow> string \<Rightarrow> string \<Rightarrow> bool \<Rightarrow> string \<Rightarrow> int \<times> string list \<times> msg" where
  "check_answers q1 q2 q3 q4 q5 =
     (let (score, feedback) = (0, []);
          (score, feedback) =
            (if q1 = ''To prevent storing plain text passwords''
             then (score + 1, feedback @ [''Q1: Correct! Never store plain text passwords''])
             else (score, feedback @ [''Q1: Hashing prevents storing plain text'']));
          (score, feedback) =
            (if q2 = ''st.session_state''
             then (score + 1, feedback @ [''Q2: Correct!''])
             else (score, feedback @ [''Q2: Use st.session_state'']));
          (score, feedback) =
            (if q3 = ''st.stop()''
             then (score + 1, feedback @ [''Q3: Correct!''])
             else (score, feedback @ [''Q3: Use st.stop() to halt execution'']));
          (score, feedback) =
            (if q4
             then (score + 1, feedback @ [''Q4: Correct! Session state is shared''])
             else (score, feedback @ [''Q4: Session state persists across pages'']));
          (score, feedback) =
            (if q5 = ''bcrypt''
             then (score + 1, feedback @ [''Q5: Correct! bcrypt is production-ready''])
             else (score, feedback @ [''Q5: bcrypt is recommended for production'']))
      in (score, feedback,
          if score = 5 then Success ''Excellent! You understand authentication!''
          else if score \<ge> 3 then Info ''Good! Review security concepts.''
          else Warning ''Please review authentication concepts.''))"

section \<open>The shared session store\<close>

text \<open>
  \<^verbatim>\<open>st.session_state\<close> holds arbitrary Python values under string keys. The values the
  pages below store are integers, strings, dates, lists and dictionaries; a dictionary
  is an association list in insertion order.
\<close>

datatype date = Date int int int

datatype pyval =
    PyNone
  | PyBool bool
  | PyInt int
  | PyStr string
  | PyDate date
  | PyList "pyval list"
  | PyDict "(string \<times> pyval) list"

type_synonym store = "string \<rightharpoonup> pyval"

text \<open>
  \<^verbatim>\<open>st.session_state.k = v\<close> and \<^verbatim>\<open>st.session_state.k\<close>; reading a key that is not there
  raises, which is \<^const>\<open>None\<close>.
\<close>

definition store_write :: "store \<Rightarrow> string \<Rightarrow> pyval \<Rightarrow> store" where
  "store_write st k v = st(k \<mapsto> v)"

definition store_read :: "store \<Rightarrow> string \<Rightarrow> pyval option" where
  "store_read st k = st k"

text \<open>
  pages/04_session_state.py, lines 132-133 and 156-160: the cart and the callback
  \<^verbatim>\<open>add_to_cart\<close>. \<^verbatim>\<open>append\<close> changes the list object that the key holds; no other key
  holds the same object, so this is a write of the longer list. The result is
  \<^const>\<open>None\<close> where the key is missing or does not hold a list. (\<open>prd\<close> is the
  parameter \<^verbatim>\<open>prod\<close>; the plain name is taken in HOL.)
\<close>

definition init_cart :: "store \<Rightarrow> store" where
  "init_cart st = (if store_read st ''cart'' = None then store_write st ''cart'' (PyList []) else st)"

definition add_to_cart :: "store \<Rightarrow> string \<Rightarrow> int \<Rightarrow> store option" where
  "add_to_cart st prd price =
     (case store_read st ''cart'' of
        Some (PyList cart) \<Rightarrow>
          Some (store_write st ''cart''
                  (PyList (cart @ [PyDict [(''product'', PyStr prd), (''price'', PyInt price)]])))
      | _ \<Rightarrow> None)"

text \<open>
  pages/13_database_api.py, lines 722-730: the refresh counter. The key only ever
  holds an integer; on anything else the model gives \<^const>\<open>None\<close>.
\<close>

definition init_refresh_count :: "store \<Rightarrow> store" where
  "init_refresh_count st =
     (if store_read st ''refresh_count'' = None then store_write st ''refresh_count'' (PyInt 0)
      else st)"

definition refresh_data :: "store \<Rightarrow> store option" where
  "refresh_data st =
     (case store_read st ''refresh_count'' of
        Some (PyInt n) \<Rightarrow> Some (store_write st ''refresh_count'' (PyInt (n + 1)))
      | _ \<Rightarrow> None)"

section \<open>Chapter 13: progress tracking\<close>

text \<open>
  pages/13_database_api.py, lines 741-764: \<^verbatim>\<open>st.session_state.progress\<close>, set to 0 when
  the key is missing, and the three buttons.
\<close>

definition progress_init :: int where
  "progress_init = 0"

datatype progress_button = Add_10 | Subtract_10 | Reset

fun click :: "int \<Rightarrow> progress_button \<Rightarrow> int" where
  "click progress Add_10 = min 100 (progress + 10)"
| "click progress Subtract_10 = max 0 (progress - 10)"
| "click progress Reset = 0"

section \<open>Chapter 10: password strength\<close>

text \<open>\<^verbatim>\<open>str(n)\<close> for the integer inside an f-string.\<close>

function str_nat :: "nat \<Rightarrow> string" where
  "str_nat n =
     (if n < 10 then [char_of (48 + n)]
      else str_nat (n div 10) @ [char_of (48 + n mod 10)])"
  by pat_completeness auto
termination
  by (relation "measure id") auto

declare str_nat.simps [simp del]

definition str_int :: "int \<Rightarrow> string" where
  "str_int i = (if i < 0 then CHR ''-'' # str_nat (nat (- i)) else str_nat (nat i))"

text \<open>
  The four \<^verbatim>\<open>re.search\<close> tests of lines 393-419: the classes \<^verbatim>\<open>[A-Z]\<close>, \<^verbatim>\<open>[a-z]\<close>, \<^verbatim>\<open>\d\<close>
  (among the code points below 256 the decimal digits are 0 to 9) and
  \<^verbatim>\<open>[!@#$%^&*(),.?":{}|<>]\<close>.
\<close>

definition has_upper :: "string \<Rightarrow> bool" where
  "has_upper s = (\<exists>c \<in> set s. CHR ''A'' \<le> c \<and> c \<le> CHR ''Z'')"

definition has_lower :: "string \<Rightarrow> bool" where
  "has_lower s = (\<exists>c \<in> set s. CHR ''a'' \<le> c \<and> c \<le> CHR ''z'')"

definition has_digit :: "string \<Rightarrow> bool" where
  "has_digit s = (\<exists>c \<in> set s. CHR ''0'' \<le> c \<and> c \<le> CHR ''9'')"

definition special_chars :: string where
  "special_chars = ''!@#$%^&*(),.?'' @ [CHR 0x22] @ '':{}|<>''"

definition has_special :: "string \<Rightarrow> bool" where
  "has_special s = (\<exists>c \<in> set s. c \<in> set special_chars)"

text \<open>Lines 387-420: the score and the feedback lines, built up check by check.\<close>

definition strength_feedback :: "string \<Rightarrow> int \<times> string list" where
  "strength_feedback password_input =
     (let (strength, feedback) = (0, []);
          (strength, feedback) =
            (if length password_input \<ge> 8
             then (strength + 1, feedback @ [''Length OK (8+ characters)''])
             else (strength, feedback @ [''Too short (need 8+ characters)'']));
          (strength, feedback) =
            (if has_upper password_input
             then (strength + 1, feedback @ [''Has uppercase letter''])
             else (strength, feedback @ [''Needs uppercase letter'']));
          (strength, feedback) =
            (if has_lower password_input
             then (strength + 1, feedback @ [''Has lowercase letter''])
             else (strength, feedback @ [''Needs lowercase letter'']));
          (strength, feedback) =
            (if has_digit password_input
             then (strength + 1, feedback @ [''Has number''])
             else (strength, feedback @ [''Needs number'']));
          (strength, feedback) =
            (if has_special password_input
             then (strength + 1, feedback @ [''Has special character''])
             else (strength, feedback @ [''Consider adding special character'']))
      in (strength, feedback))"

text \<open>
  Lines 384-431: the body of \<^verbatim>\<open>if st.form_submit_button("Check Strength")\<close> in the form
  \<^verbatim>\<open>password_validation\<close>: the verdict and the feedback lines written below it.
\<close>

definition password_validation :: "string \<Rightarrow> msg \<times> string list" where
  "password_validation password_input =
     (if password_input = [] then (Error ''Password is required'', [])
      else
        let (strength, feedback) = strength_feedback password_input
        in (if strength \<le> 2
              then Error (''Weak Password (Score: '' @ str_int strength @ ''/5)'')
            else if strength \<le> 3
              then Warning (''Medium Password (Score: '' @ str_int strength @ ''/5)'')
            else Success (''Strong Password (Score: '' @ str_int strength @ ''/5)''),
            feedback))"

section \<open>Chapter 10: the multi-step form\<close>

text \<open>
  pages/10_forms_validation.py, lines 11-19: the three keys of the wizard and their
  first values. \<^verbatim>\<open>form_data\<close> is a dictionary, \<^verbatim>\<open>submitted_forms\<close> a list of dictionaries.
\<close>

record wizard =
  form_step :: int
  form_data :: "(string \<times> pyval) list"
  submitted_forms :: "pyval list"

definition wizard_init :: wizard where
  "wizard_init = \<lparr>form_step = 1, form_data = [], submitted_forms = []\<rparr>"

text \<open>\<^verbatim>\<open>d.update({...})\<close>: the items are stored one after the other.\<close>

definition dict_update :: "(string \<times> pyval) list \<Rightarrow> (string \<times> pyval) list \<Rightarrow> (string \<times> pyval) list" where
  "dict_update d items = fold (\<lambda>(k, v). AList.update k v) items d"

text \<open>Lines 504-552, step 1: the checks and the body of \<^verbatim>\<open>Next\<close>.\<close>

definition step1_errors :: "string \<Rightarrow> string \<Rightarrow> string \<Rightarrow> string \<Rightarrow> string list" where
  "step1_errors first_name last_name email phone =
     (if first_name = [] then [''First name is required''] else [])
     @ (if last_name = [] then [''Last name is required''] else [])
     @ (if email = [] \<or> CHR ''@'' \<notin> set email then [''Valid email is required''] else [])
     @ (if phone = [] then [''Phone is required''] else [])"

definition step1_fields :: "string \<Rightarrow> string \<Rightarrow> string \<Rightarrow> string \<Rightarrow> date \<Rightarrow> (string \<times> pyval) list" where
  "step1_fields first_name last_name email phone birthdate =
     [(''first_name'', PyStr first_name), (''last_name'', PyStr last_name),
      (''email'', PyStr email), (''phone'', PyStr phone), (''birthdate'', PyDate birthdate)]"

definition step1_next ::
  "wizard \<Rightarrow> string \<Rightarrow> string \<Rightarrow> string \<Rightarrow> string \<Rightarrow> date \<Rightarrow> wizard \<times> msg list" where
  "step1_next s first_name last_name email phone birthdate =
     (let errors = step1_errors first_name last_name email phone
      in if errors \<noteq> [] then (s, map Error errors)
         else (s\<lparr>form_data :=
                    dict_update (form_data s)
                      (step1_fields first_name last_name email phone birthdate),
                  form_step := 2\<rparr>, []))"

text \<open>Lines 555-608, step 2.\<close>

definition step2_errors :: "string \<Rightarrow> string \<Rightarrow> string \<Rightarrow> string \<Rightarrow> string list" where
  "step2_errors street city state zipcode =
     (if street = [] then [''Street address is required''] else [])
     @ (if city = [] then [''City is required''] else [])
     @ (if state = [] then [''State is required''] else [])
     @ (if zipcode = [] then [''ZIP code is required''] else [])"

definition step2_fields :: "string \<Rightarrow> string \<Rightarrow> string \<Rightarrow> string \<Rightarrow> string \<Rightarrow> (string \<times> pyval) list" where
  "step2_fields street city state zipcode country =
     [(''street'', PyStr street), (''city'', PyStr city), (''state'', PyStr state),
      (''zipcode'', PyStr zipcode), (''country'', PyStr country)]"

definition step2_back :: "wizard \<Rightarrow> wizard \<times> msg list" where
  "step2_back s = (s\<lparr>form_step := 1\<rparr>, [])"

definition step2_next ::
  "wizard \<Rightarrow> string \<Rightarrow> string \<Rightarrow> string \<Rightarrow> string \<Rightarrow> string \<Rightarrow> wizard \<times> msg list" where
  "step2_next s street city state zipcode country =
     (let errors = step2_errors street city state zipcode
      in if errors \<noteq> [] then (s, map Error errors)
         else (s\<lparr>form_data :=
                    dict_update (form_data s) (step2_fields street city state zipcode country),
                  form_step := 3\<rparr>, []))"

text \<open>
  Lines 611-672, step 3. The password itself is not kept: the dictionary gets the text
  \<^verbatim>\<open>'***hidden***'\<close> under \<^verbatim>\<open>'password'\<close>.
\<close>

definition step3_errors :: "string \<Rightarrow> string \<Rightarrow> string \<Rightarrow> string \<Rightarrow> string list" where
  "step3_errors username password confirm_password security_answer =
     (if username = [] then [''Username is required'']
      else if length username < 3 then [''Username must be at least 3 characters'']
      else [])
     @ (if password = [] then [''Password is required'']
        else if length password < 8 then [''Password must be at least 8 characters'']
        else [])
     @ (if password \<noteq> confirm_password then [''Passwords don't match''] else [])
     @ (if security_answer = [] then [''Security answer is required''] else [])"

definition step3_fields :: "string \<Rightarrow> string \<Rightarrow> string \<Rightarrow> (string \<times> pyval) list" where
  "step3_fields username security_question security_answer =
     [(''username'', PyStr username), (''password'', PyStr ''***hidden***''),
      (''security_question'', PyStr security_question),
      (''security_answer'', PyStr security_answer)]"

definition step3_back :: "wizard \<Rightarrow> wizard \<times> msg list" where
  "step3_back s = (s\<lparr>form_step := 2\<rparr>, [])"

definition step3_next ::
  "wizard \<Rightarrow> string \<Rightarrow> string \<Rightarrow> string \<Rightarrow> string \<Rightarrow> string \<Rightarrow> wizard \<times> msg list" where
  "step3_next s username password confirm_password security_question security_answer =
     (let errors = step3_errors username password confirm_password security_answer
      in if errors \<noteq> [] then (s, map Error errors)
         else (s\<lparr>form_data :=
                    dict_update (form_data s)
                      (step3_fields username security_question security_answer),
                  form_step := 4\<rparr>, []))"

text \<open>
  Lines 675-726, step 4: \<^verbatim>\<open>Back to Edit\<close> and \<^verbatim>\<open>Submit Application\<close>. \<open>now\<close> is the text of
  \<^verbatim>\<open>datetime.now().strftime(...)\<close>.
\<close>

definition step4_back :: "wizard \<Rightarrow> wizard \<times> msg list" where
  "step4_back s = (s\<lparr>form_step := 3\<rparr>, [])"

definition application :: "(string \<times> pyval) list \<Rightarrow> string \<Rightarrow> pyval" where
  "application d now =
     PyDict [(''type'', PyStr ''multi-step-application''), (''data'', PyDict d),
             (''timestamp'', PyStr now)]"

definition step4_submit :: "wizard \<Rightarrow> string \<Rightarrow> wizard \<times> msg list" where
  "step4_submit s now =
     (s\<lparr>submitted_forms := submitted_forms s @ [application (form_data s) now],
        form_step := 1, form_data := []\<rparr>,
      [Success ''Application submitted successfully!''])"

text \<open>
  The tab as a whole (lines 496-726): the chain \<^verbatim>\<open>if form_step == 1 ... elif ... == 4\<close>
  decides which form is drawn, so only the buttons of the current step can be pressed. A
  press of a button that is not on the screen changes nothing.
\<close>

datatype wizard_event =
    Step1_Next string string string string date
  | Step2_Back
  | Step2_Next string string string string string
  | Step3_Back
  | Step3_Next string string string string string
  | Step4_Back
  | Step4_Submit string

definition tab4 :: "wizard \<Rightarrow> wizard_event \<Rightarrow> wizard \<times> msg list" where
  "tab4 s ev =
     (if form_step s = 1 then
        (case ev of
           Step1_Next first_name last_name email phone birthdate \<Rightarrow>
             step1_next s first_name last_name email phone birthdate
         | _ \<Rightarrow> (s, []))
      else if form_step s = 2 then
        (case ev of
           Step2_Back \<Rightarrow> step2_back s
         | Step2_Next street city state zipcode country \<Rightarrow>
             step2_next s street city state zipcode country
         | _ \<Rightarrow> (s, []))
      else if form_step s = 3 then
        (case ev of
           Step3_Back \<Rightarrow> step3_back s
         | Step3_Next username password confirm_password security_question security_answer \<Rightarrow>
             step3_next s username password confirm_password security_question security_answer
         | _ \<Rightarrow> (s, []))
      else if form_step s = 4 then
        (case ev of
           Step4_Back \<Rightarrow> step4_back s
         | Step4_Submit now \<Rightarrow> step4_submit s now
         | _ \<Rightarrow> (s, []))
      else (s, []))"

text \<open>
  The states of the wizard a session can be in. Besides the buttons of the tab, other
  forms write \<^verbatim>\<open>form_data\<close> and \<^verbatim>\<open>submitted_forms\<close> (the contact and registration forms of this
  page, the form of Chapter 4); none writes \<^verbatim>\<open>form_step\<close>.
\<close>

inductive wizard_reachable :: "wizard \<Rightarrow> bool" where
  start: "wizard_reachable wizard_init"
| press: "wizard_reachable s \<Longrightarrow> wizard_reachable (fst (tab4 s ev))"
| elsewhere:
    "wizard_reachable s \<Longrightarrow> wizard_reachable (s\<lparr>form_data := d, submitted_forms := fs\<rparr>)"

section \<open>Login (Chapters 8 and 9)\<close>

text \<open>A table that a session can hold has no entry under the empty user name.\<close>

lemma users_db_reachable_nonempty_keys: "users_db_reachable db \<Longrightarrow> db [] = None"
proof (induction rule: users_db_reachable.induct)
  case seeded_ch8
  show ?case by (simp add: users_db_ch8_def)
next
  case seeded_ch9
  show ?case by (simp add: users_db_ch9_def)
next
  case (registered s new_username new_email new_password confirm_password role now)
  then show ?case
    by (auto simp: register_form_def register_errors_def Let_def)
qed

text \<open>
  C1. For every submitted user name and every non-empty password, the login of either
  chapter succeeds (it reports \<open>Login successful!\<close>) if and only if the user name is a key
  of \<open>users_db\<close> and the SHA-256 hex digest of the password, computed from the password
  alone, equals the hash stored for that user. On success Chapter 8 sets \<open>authenticated\<close>
  to \<open>True\<close> and \<open>current_user\<close> to the user name, and Chapter 9 sets \<open>user_role\<close> to the
  stored role as well; nothing else in the session changes.
\<close>

theorem login_check:
  assumes "users_db_reachable (users_db s)" and "password \<noteq> []"
  shows "((snd (login_form s username password) = [Success ''Login successful!'']) =
            (\<exists>u. users_db s username = Some u
                 \<and> sha256_hexdigest (encode password) = db_password u))
       \<and> ((snd (rbac_login s username password) = [Success ''Login successful!'']) =
            (\<exists>u. users_db s username = Some u
                 \<and> sha256_hexdigest (encode password) = db_password u))
       \<and> (\<forall>u. users_db s username = Some u
                 \<and> sha256_hexdigest (encode password) = db_password u \<longrightarrow>
              fst (login_form s username password) =
                s\<lparr>authenticated := True, current_user := Some username\<rparr>
            \<and> fst (rbac_login s username password) =
                s\<lparr>authenticated := True, current_user := Some username,
                  user_role := Some (db_role u)\<rparr>)"
proof -
  have key: "username = [] \<Longrightarrow> users_db s username = None"
    using assms(1) by (simp add: users_db_reachable_nonempty_keys)
  have ch8: "(snd (login_form s username password) = [Success ''Login successful!'']) =
            (\<exists>u. users_db s username = Some u
                 \<and> sha256_hexdigest (encode password) = db_password u)"
    using key assms(2) by (auto simp: login_form_def Let_def split: option.splits)
  have ch9: "(snd (rbac_login s username password) = [Success ''Login successful!'']) =
            (\<exists>u. users_db s username = Some u
                 \<and> sha256_hexdigest (encode password) = db_password u)"
    by (auto simp: rbac_login_def Let_def split: option.splits)
  have st: "\<forall>u. users_db s username = Some u
                 \<and> sha256_hexdigest (encode password) = db_password u \<longrightarrow>
              fst (login_form s username password) =
                s\<lparr>authenticated := True, current_user := Some username\<rparr>
            \<and> fst (rbac_login s username password) =
                s\<lparr>authenticated := True, current_user := Some username,
                  user_role := Some (db_role u)\<rparr>"
    using key assms(2) by (auto simp: login_form_def rbac_login_def Let_def)
  from ch8 ch9 st show ?thesis by blast
qed

theorem login_check_witness:
  "users_db_reachable (users_db \<lparr>authenticated = False, current_user = None, user_role = None,
                                  users_db = users_db_ch8\<rparr>)
   \<and> ''admin123'' \<noteq> []
   \<and> snd (login_form \<lparr>authenticated = False, current_user = None, user_role = None,
                       users_db = users_db_ch8\<rparr> ''admin'' ''admin123'')
       = [Success ''Login successful!'']
   \<and> fst (rbac_login \<lparr>authenticated = False, current_user = None, user_role = None,
                       users_db = users_db_ch8\<rparr> ''admin'' ''admin123'')
       = \<lparr>authenticated = True, current_user = Some ''admin'', user_role = Some ''admin'',
          users_db = users_db_ch8\<rparr>"
  using login_check [of "\<lparr>authenticated = False, current_user = None, user_role = None,
                          users_db = users_db_ch8\<rparr>" "''admin123''" "''admin''"]
        users_db_reachable.seeded_ch8
  by (simp add: users_db_ch8_def)

section \<open>Failed logins\<close>

text \<open>
  C3 as stated fails in Chapter 8: the form checks for empty fields first, and an attempt
  with the user name \<open>admin\<close> and an empty password is refused with
  \<open>Please fill in all fields\<close>, which is neither \<open>User not found\<close> nor \<open>Invalid password\<close>.
\<close>

theorem failed_login_counterexample:
  "snd (login_form \<lparr>authenticated = False, current_user = None, user_role = None,
                     users_db = users_db_ch8\<rparr> ''admin'' [])
     = [Error ''Please fill in all fields'']
   \<and> snd (login_form \<lparr>authenticated = False, current_user = None, user_role = None,
                       users_db = users_db_ch8\<rparr> ''admin'' [])
     \<noteq> [Error ''User not found'']
   \<and> snd (login_form \<lparr>authenticated = False, current_user = None, user_role = None,
                       users_db = users_db_ch8\<rparr> ''admin'' [])
     \<noteq> [Error ''Invalid password'']"
  by (simp add: login_form_def)

text \<open>
  C3, amended. Every login attempt that does not succeed shows exactly one error message
  and leaves the session, \<open>users_db\<close> included, as it was. In Chapter 8 the message is
  \<open>Please fill in all fields\<close> when the user name or the password is empty, and otherwise
  \<open>User not found\<close> when the user name is not a key of \<open>users_db\<close> and \<open>Invalid password\<close>
  when it is. In Chapter 9, which has no check for empty fields, it is \<open>User not found\<close>
  or \<open>Invalid password\<close> by the same rule.
\<close>

theorem failed_login:
  "(snd (login_form s username password) \<noteq> [Success ''Login successful!''] \<longrightarrow>
      fst (login_form s username password) = s
    \<and> snd (login_form s username password) =
        [Error (if username = [] \<or> password = [] then ''Please fill in all fields''
                else if users_db s username = None then ''User not found''
                else ''Invalid password'')])
   \<and> (snd (rbac_login s username password) \<noteq> [Success ''Login successful!''] \<longrightarrow>
      fst (rbac_login s username password) = s
    \<and> snd (rbac_login s username password) =
        [Error (if users_db s username = None then ''User not found''
                else ''Invalid password'')])"
  by (auto simp: login_form_def rbac_login_def Let_def split: option.splits)

theorem failed_login_witness:
  "snd (login_form \<lparr>authenticated = False, current_user = None, user_role = None,
                     users_db = users_db_ch9\<rparr> ''nobody'' ''secret'')
     = [Error ''User not found'']
   \<and> fst (login_form \<lparr>authenticated = False, current_user = None, user_role = None,
                       users_db = users_db_ch9\<rparr> ''nobody'' ''secret'')
     = \<lparr>authenticated = False, current_user = None, user_role = None,
        users_db = users_db_ch9\<rparr>
   \<and> snd (rbac_login \<lparr>authenticated = False, current_user = None, user_role = None,
                       users_db = users_db_ch9\<rparr> ''nobody'' ''secret'')
     = [Error ''User not found'']
   \<and> fst (rbac_login \<lparr>authenticated = False, current_user = None, user_role = None,
                       users_db = users_db_ch9\<rparr> ''nobody'' ''secret'')
     = \<lparr>authenticated = False, current_user = None, user_role = None,
        users_db = users_db_ch9\<rparr>"
proof -
  let ?s = "\<lparr>authenticated = False, current_user = None, user_role = None,
             users_db = users_db_ch9\<rparr>"
  have absent: "users_db ?s ''nobody'' = None"
    by (simp add: users_db_ch9_def)
  have l8: "snd (login_form ?s ''nobody'' ''secret'') \<noteq> [Success ''Login successful!'']"
    using absent by (simp add: login_form_def)
  have l9: "snd (rbac_login ?s ''nobody'' ''secret'') \<noteq> [Success ''Login successful!'']"
    using absent by (simp add: rbac_login_def)
  show ?thesis
    using failed_login [of ?s "''nobody''" "''secret''"] l8 l9 absent by simp
qed

section \<open>Registration (Chapter 8)\<close>

text \<open>The five checks of the registration form, in the order of the source.\<close>

lemma register_errors_count:
  "length (register_errors s new_username new_email new_password confirm_password) =
     length (filter (\<lambda>failed. failed)
       [new_username = [] \<or> new_password = [] \<or> new_email = [],
        users_db s new_username \<noteq> None,
        length new_password < 6,
        new_password \<noteq> confirm_password,
        CHR ''@'' \<notin> set new_email])"
  by (simp add: register_errors_def)

lemma register_errors_empty:
  "(register_errors s new_username new_email new_password confirm_password = []) =
     (new_username \<noteq> [] \<and> new_email \<noteq> [] \<and> new_password \<noteq> []
      \<and> users_db s new_username = None \<and> 6 \<le> length new_password
      \<and> new_password = confirm_password \<and> CHR ''@'' \<in> set new_email)"
  by (auto simp: register_errors_def)

text \<open>
  C6. A registration creates an account if and only if user name, email and password are
  non-empty, the user name is not yet a key of \<open>users_db\<close>, the password has at least 6
  characters and equals the confirmation, and the email contains \<open>@\<close>. On success
  \<open>users_db\<close> gains exactly the entry of the new user name, whose stored password is the
  SHA-256 hex digest of the submitted password, every entry that was there is unchanged,
  and so is the rest of the session. Otherwise the session is unchanged and one error
  message is shown for each of the five checks that failed.
\<close>

theorem registration_validation:
  "(fst (register_form s new_username new_email new_password confirm_password role now) \<noteq> s) =
     (new_username \<noteq> [] \<and> new_email \<noteq> [] \<and> new_password \<noteq> []
      \<and> users_db s new_username = None \<and> 6 \<le> length new_password
      \<and> new_password = confirm_password \<and> CHR ''@'' \<in> set new_email)
   \<and> (new_username \<noteq> [] \<and> new_email \<noteq> [] \<and> new_password \<noteq> []
      \<and> users_db s new_username = None \<and> 6 \<le> length new_password
      \<and> new_password = confirm_password \<and> CHR ''@'' \<in> set new_email \<longrightarrow>
        fst (register_form s new_username new_email new_password confirm_password role now) =
          s\<lparr>users_db := (users_db s)(new_username \<mapsto>
               \<lparr>db_password = sha256_hexdigest (encode new_password), db_role = role,
                db_email = new_email, db_created = Some now, db_permissions = None\<rparr>)\<rparr>
      \<and> dom (users_db (fst (register_form s new_username new_email new_password
                                confirm_password role now))) =
          insert new_username (dom (users_db s))
      \<and> new_username \<notin> dom (users_db s)
      \<and> (\<forall>k. k \<noteq> new_username \<longrightarrow>
            users_db (fst (register_form s new_username new_email new_password
                             confirm_password role now)) k = users_db s k)
      \<and> snd (register_form s new_username new_email new_password confirm_password role now) =
          [Success (''Account created successfully! You can now login with username: ''
                     @ new_username)])
   \<and> (\<not> (new_username \<noteq> [] \<and> new_email \<noteq> [] \<and> new_password \<noteq> []
      \<and> users_db s new_username = None \<and> 6 \<le> length new_password
      \<and> new_password = confirm_password \<and> CHR ''@'' \<in> set new_email) \<longrightarrow>
        fst (register_form s new_username new_email new_password confirm_password role now) = s
      \<and> snd (register_form s new_username new_email new_password confirm_password role now) =
          (if new_username = [] \<or> new_password = [] \<or> new_email = []
           then [Error ''All fields are required''] else [])
          @ (if users_db s new_username \<noteq> None then [Error ''Username already exists''] else [])
          @ (if length new_password < 6
             then [Error ''Password must be at least 6 characters''] else [])
          @ (if new_password \<noteq> confirm_password then [Error ''Passwords don't match''] else [])
          @ (if CHR ''@'' \<notin> set new_email then [Error ''Invalid email format''] else [])
      \<and> length (snd (register_form s new_username new_email new_password confirm_password
                        role now)) =
          length (filter (\<lambda>failed. failed)
            [new_username = [] \<or> new_password = [] \<or> new_email = [],
             users_db s new_username \<noteq> None,
             length new_password < 6,
             new_password \<noteq> confirm_password,
             CHR ''@'' \<notin> set new_email]))"
  (is "?created = ?valid \<and> (?valid \<longrightarrow> ?added) \<and> (\<not> ?valid \<longrightarrow> ?refused)")
proof (cases ?valid)
  case True
  then have none: "register_errors s new_username new_email new_password confirm_password = []"
    using register_errors_empty [of s new_username new_email new_password confirm_password]
    by blast
  have r: "register_form s new_username new_email new_password confirm_password role now =
      (s\<lparr>users_db := (users_db s)(new_username \<mapsto>
               \<lparr>db_password = sha256_hexdigest (encode new_password), db_role = role,
                db_email = new_email, db_created = Some now, db_permissions = None\<rparr>)\<rparr>,
       [Success (''Account created successfully! You can now login with username: ''
                     @ new_username)])"
    by (simp add: register_form_def none)
  have fresh: "users_db s new_username = None" using True by simp
  have changed: "s\<lparr>users_db := (users_db s)(new_username \<mapsto>
               \<lparr>db_password = sha256_hexdigest (encode new_password), db_role = role,
                db_email = new_email, db_created = Some now, db_permissions = None\<rparr>)\<rparr> \<noteq> s"
  proof
    assume "s\<lparr>users_db := (users_db s)(new_username \<mapsto>
               \<lparr>db_password = sha256_hexdigest (encode new_password), db_role = role,
                db_email = new_email, db_created = Some now, db_permissions = None\<rparr>)\<rparr> = s"
    then have "users_db (s\<lparr>users_db := (users_db s)(new_username \<mapsto>
               \<lparr>db_password = sha256_hexdigest (encode new_password), db_role = role,
                db_email = new_email, db_created = Some now, db_permissions = None\<rparr>)\<rparr>)
                 new_username = users_db s new_username"
      by simp
    with fresh show False by simp
  qed
  have "?created" using r changed by simp
  moreover have "?added" using r fresh by (auto simp: domIff)
  ultimately show ?thesis using True by blast
next
  case False
  then have some: "register_errors s new_username new_email new_password confirm_password \<noteq> []"
    using register_errors_empty [of s new_username new_email new_password confirm_password]
    by blast
  have r: "register_form s new_username new_email new_password confirm_password role now =
      (s, map Error (register_errors s new_username new_email new_password confirm_password))"
    by (simp add: register_form_def some)
  have "\<not> ?created" using r by simp
  moreover have "?refused"
    unfolding r by (simp add: register_errors_def)
  ultimately show ?thesis using False by blast
qed

theorem registration_validation_witness:
  "users_db (fst (register_form
       \<lparr>authenticated = False, current_user = None, user_role = None, users_db = users_db_ch8\<rparr>
       ''carol'' ''carol@example.com'' ''s3cret!'' ''s3cret!'' ''user'' ''2024-05-01 10:00:00''))
     ''carol''
   = Some \<lparr>db_password = sha256_hexdigest (encode ''s3cret!''), db_role = ''user'',
           db_email = ''carol@example.com'', db_created = Some ''2024-05-01 10:00:00'',
           db_permissions = None\<rparr>
   \<and> snd (register_form
       \<lparr>authenticated = False, current_user = None, user_role = None, users_db = users_db_ch8\<rparr>
       ''admin'' ''nomail'' ''abc'' ''abd'' ''user'' ''2024-05-01 10:00:00'')
   = [Error ''Username already exists'', Error ''Password must be at least 6 characters'',
      Error ''Passwords don't match'', Error ''Invalid email format'']"
  using registration_validation [of
      "\<lparr>authenticated = False, current_user = None, user_role = None, users_db = users_db_ch8\<rparr>"
      "''carol''" "''carol@example.com''" "''s3cret!''" "''s3cret!''" "''user''"
      "''2024-05-01 10:00:00''"]
    registration_validation [of
      "\<lparr>authenticated = False, current_user = None, user_role = None, users_db = users_db_ch8\<rparr>"
      "''admin''" "''nomail''" "''abc''" "''abd''" "''user''" "''2024-05-01 10:00:00''"]
  by (simp add: users_db_ch8_def)

section \<open>Access checks (Chapter 9)\<close>

lemma PAGE_ACCESS_keys: "distinct (map fst PAGE_ACCESS)"
  by (simp add: PAGE_ACCESS_def)

lemma page_access_rows:
  assumes "map_of PAGE_ACCESS page = Some allowed_roles"
  shows "((page, m) \<in> set (map (\<lambda>(page, allowed_roles). (page, page_verdict r allowed_roles))
                             PAGE_ACCESS)) = (m = page_verdict r allowed_roles)"
proof
  assume "(page, m) \<in> set (map (\<lambda>(page, allowed_roles). (page, page_verdict r allowed_roles))
                             PAGE_ACCESS)"
  then obtain a where a: "(page, a) \<in> set PAGE_ACCESS" and m: "m = page_verdict r a"
    by auto
  from a have "map_of PAGE_ACCESS page = Some a"
    by (rule map_of_is_SomeI [OF PAGE_ACCESS_keys])
  with assms have "a = allowed_roles" by simp
  with m show "m = page_verdict r allowed_roles" by simp
next
  assume m: "m = page_verdict r allowed_roles"
  from assms have "(page, allowed_roles) \<in> set PAGE_ACCESS"
    by (rule map_of_SomeD)
  then have "(\<lambda>(page, allowed_roles). (page, page_verdict r allowed_roles)) (page, allowed_roles)
               \<in> set (map (\<lambda>(page, allowed_roles). (page, page_verdict r allowed_roles))
                             PAGE_ACCESS)"
    unfolding set_map by (rule imageI)
  with m show "(page, m) \<in> set (map (\<lambda>(page, allowed_roles).
                   (page, page_verdict r allowed_roles)) PAGE_ACCESS)"
    by simp
qed

text \<open>
  C2. The verdicts are what the tab \<open>Permissions Test\<close> shows when the run of the script
  reaches it, that is for a visitor who is logged in, whatever \<open>user_role\<close> holds: a role
  of \<open>ROLE_PERMISSIONS\<close>, a role that is not a key of it, or \<open>None\<close> (a login in Chapter 8
  sets no role). The permission test grants a permission if and only if it is a member of
  the list that \<open>ROLE_PERMISSIONS\<close> has for the visitor's role, the empty list when the
  role is not a key or is \<open>None\<close>, and denies it otherwise. The page test grants a page of
  \<open>PAGE_ACCESS\<close> if and only if the visitor's role is a member of the list of that page,
  which \<open>None\<close> never is, and denies it otherwise. The verdicts depend on nothing but
  these memberships.
\<close>

theorem access_checks:
  assumes "authenticated s"
  shows "test_permission s test_perm =
           Shown (if test_perm \<in> set (case user_role s of
                                         None \<Rightarrow> []
                                       | Some role \<Rightarrow>
                                           (case map_of ROLE_PERMISSIONS role of
                                              None \<Rightarrow> [] | Some perms \<Rightarrow> perms))
                  then Success (''You have '' @ [CHR 0x27] @ test_perm @ [CHR 0x27]
                                 @ '' permission!'')
                  else Error (''You don't have '' @ [CHR 0x27] @ test_perm @ [CHR 0x27]
                               @ '' permission''))
       \<and> (\<exists>verdicts. page_access_test s = Shown verdicts
            \<and> map fst verdicts = map fst PAGE_ACCESS
            \<and> (\<forall>page allowed_roles. map_of PAGE_ACCESS page = Some allowed_roles \<longrightarrow>
                  (((page, Success ''Access'') \<in> set verdicts) =
                     (\<exists>role. user_role s = Some role \<and> role \<in> set allowed_roles))
                \<and> (((page, Error ''Denied'') \<in> set verdicts) =
                     (\<not> (\<exists>role. user_role s = Some role \<and> role \<in> set allowed_roles)))))"
proof -
  have t: "test_permission s test_perm =
           Shown (if test_perm \<in> set (case user_role s of
                                         None \<Rightarrow> []
                                       | Some role \<Rightarrow>
                                           (case map_of ROLE_PERMISSIONS role of
                                              None \<Rightarrow> [] | Some perms \<Rightarrow> perms))
                  then Success (''You have '' @ [CHR 0x27] @ test_perm @ [CHR 0x27]
                                 @ '' permission!'')
                  else Error (''You don't have '' @ [CHR 0x27] @ test_perm @ [CHR 0x27]
                               @ '' permission''))"
    using assms
    by (cases "user_role s") (simp_all add: test_permission_def user_permissions_def)
  let ?verdicts = "map (\<lambda>(page, allowed_roles). (page, page_verdict (user_role s) allowed_roles))
                     PAGE_ACCESS"
  have p: "page_access_test s = Shown ?verdicts"
    using assms by (simp add: page_access_test_def)
  have keys: "map fst ?verdicts = map fst PAGE_ACCESS"
    by (simp add: case_prod_unfold comp_def)
  have rows: "\<forall>page allowed_roles. map_of PAGE_ACCESS page = Some allowed_roles \<longrightarrow>
                  (((page, Success ''Access'') \<in> set ?verdicts) =
                     (\<exists>role. user_role s = Some role \<and> role \<in> set allowed_roles))
                \<and> (((page, Error ''Denied'') \<in> set ?verdicts) =
                     (\<not> (\<exists>role. user_role s = Some role \<and> role \<in> set allowed_roles)))"
  proof (intro allI impI)
    fix page allowed_roles
    assume m: "map_of PAGE_ACCESS page = Some allowed_roles"
    have v: "page_verdict (user_role s) allowed_roles =
               (if \<exists>role. user_role s = Some role \<and> role \<in> set allowed_roles
                then Success ''Access'' else Error ''Denied'')"
      by (cases "user_role s") (simp_all add: page_verdict_def)
    show "(((page, Success ''Access'') \<in> set ?verdicts) =
             (\<exists>role. user_role s = Some role \<and> role \<in> set allowed_roles))
        \<and> (((page, Error ''Denied'') \<in> set ?verdicts) =
             (\<not> (\<exists>role. user_role s = Some role \<and> role \<in> set allowed_roles)))"
      unfolding page_access_rows [OF m] v by simp
  qed
  from t p keys rows show ?thesis by blast
qed

theorem access_checks_witness:
  "test_permission \<lparr>authenticated = True, current_user = Some ''manager'',
                     user_role = Some ''manager'', users_db = users_db_ch9\<rparr> ''delete''
     = Shown (Error ''You don't have 'delete' permission'')
   \<and> test_permission \<lparr>authenticated = True, current_user = Some ''manager'',
                       user_role = Some ''manager'', users_db = users_db_ch9\<rparr> ''write''
     = Shown (Success ''You have 'write' permission!'')
   \<and> (\<exists>verdicts. page_access_test \<lparr>authenticated = True, current_user = Some ''manager'',
                       user_role = Some ''manager'', users_db = users_db_ch9\<rparr> = Shown verdicts
        \<and> (''analytics'', Success ''Access'') \<in> set verdicts
        \<and> (''users'', Error ''Denied'') \<in> set verdicts)
   \<and> test_permission \<lparr>authenticated = True, current_user = Some ''admin'',
                       user_role = None, users_db = users_db_ch8\<rparr> ''read''
     = Shown (Error ''You don't have 'read' permission'')
   \<and> test_permission \<lparr>authenticated = True, current_user = Some ''admin'',
                       user_role = Some ''guest'', users_db = users_db_ch8\<rparr> ''read''
     = Shown (Error ''You don't have 'read' permission'')
   \<and> (\<exists>verdicts. page_access_test \<lparr>authenticated = True, current_user = Some ''admin'',
                       user_role = None, users_db = users_db_ch8\<rparr> = Shown verdicts
        \<and> (''home'', Error ''Denied'') \<in> set verdicts
        \<and> (''home'', Success ''Access'') \<notin> set verdicts)"
proof -
  let ?s = "\<lparr>authenticated = True, current_user = Some ''manager'',
             user_role = Some ''manager'', users_db = users_db_ch9\<rparr>"
  let ?n = "\<lparr>authenticated = True, current_user = Some ''admin'',
             user_role = None, users_db = users_db_ch8\<rparr>"
  let ?g = "\<lparr>authenticated = True, current_user = Some ''admin'',
             user_role = Some ''guest'', users_db = users_db_ch8\<rparr>"
  have a: "authenticated ?s" and an: "authenticated ?n" and ag: "authenticated ?g"
    by simp_all
  have m0: "map_of PAGE_ACCESS ''home'' = Some [''admin'', ''manager'', ''user'', ''viewer'']"
    and m1: "map_of PAGE_ACCESS ''analytics'' = Some [''admin'', ''manager'']"
    and m2: "map_of PAGE_ACCESS ''users'' = Some [''admin'']"
    by (simp_all add: PAGE_ACCESS_def)
  have p1: "map_of ROLE_PERMISSIONS ''manager''
              = Some [''read'', ''write'', ''view_analytics'', ''manage_team'']"
    and p2: "map_of ROLE_PERMISSIONS ''guest'' = None"
    by (simp_all add: ROLE_PERMISSIONS_def)
  have t1: "test_permission ?s ''delete'' = Shown (Error ''You don't have 'delete' permission'')"
    using access_checks [OF a, of "''delete''", THEN conjunct1] by (simp add: p1)
  have t2: "test_permission ?s ''write'' = Shown (Success ''You have 'write' permission!'')"
    using access_checks [OF a, of "''write''", THEN conjunct1] by (simp add: p1)
  have t3: "test_permission ?n ''read'' = Shown (Error ''You don't have 'read' permission'')"
    using access_checks [OF an, of "''read''", THEN conjunct1] by simp
  have t4: "test_permission ?g ''read'' = Shown (Error ''You don't have 'read' permission'')"
    using access_checks [OF ag, of "''read''", THEN conjunct1] by (simp add: p2)
  from access_checks [OF a, of "''write''", THEN conjunct2]
  obtain verdicts where v: "page_access_test ?s = Shown verdicts"
    and rows: "\<forall>page allowed_roles. map_of PAGE_ACCESS page = Some allowed_roles \<longrightarrow>
                  (((page, Success ''Access'') \<in> set verdicts) =
                     (\<exists>role. user_role ?s = Some role \<and> role \<in> set allowed_roles))
                \<and> (((page, Error ''Denied'') \<in> set verdicts) =
                     (\<not> (\<exists>role. user_role ?s = Some role \<and> role \<in> set allowed_roles)))"
    by blast
  have "(''analytics'', Success ''Access'') \<in> set verdicts"
    using rows m1 by simp
  moreover have "(''users'', Error ''Denied'') \<in> set verdicts"
    using rows m2 by simp
  ultimately have pv: "\<exists>verdicts. page_access_test ?s = Shown verdicts
        \<and> (''analytics'', Success ''Access'') \<in> set verdicts
        \<and> (''users'', Error ''Denied'') \<in> set verdicts"
    using v by blast
  from access_checks [OF an, of "''read''", THEN conjunct2]
  obtain verdicts' where v': "page_access_test ?n = Shown verdicts'"
    and rows': "\<forall>page allowed_roles. map_of PAGE_ACCESS page = Some allowed_roles \<longrightarrow>
                  (((page, Success ''Access'') \<in> set verdicts') =
                     (\<exists>role. user_role ?n = Some role \<and> role \<in> set allowed_roles))
                \<and> (((page, Error ''Denied'') \<in> set verdicts') =
                     (\<not> (\<exists>role. user_role ?n = Some role \<and> role \<in> set allowed_roles)))"
    by blast
  have "(''home'', Error ''Denied'') \<in> set verdicts'"
    using rows' m0 by simp
  moreover have "(''home'', Success ''Access'') \<notin> set verdicts'"
    using rows' m0 by simp
  ultimately have pn: "\<exists>verdicts. page_access_test ?n = Shown verdicts
        \<and> (''home'', Error ''Denied'') \<in> set verdicts
        \<and> (''home'', Success ''Access'') \<notin> set verdicts"
    using v' by blast
  from t1 t2 pv t3 t4 pn show ?thesis by blast
qed

section \<open>The users table (Chapter 13)\<close>

text \<open>
  C4 as stated fails twice. On the table: besides \<open>UNIQUE\<close> on \<open>email\<close>, the statement
  that creates it declares \<open>NOT NULL\<close> on \<open>name\<close> and on \<open>email\<close> and makes \<open>id\<close> an
  auto-incremented primary key. On the insert: once the id 9223372036854775807 has been
  handed out, a submission with a name and an email that no row has adds no row; the engine
  refuses it with an error that the handler does not catch.
\<close>

theorem users_table_counterexample:
  "(''name'', NOT_NULL) \<in> set (table_constraints users_table)
   \<and> (''id'', PRIMARY_KEY_AUTOINCREMENT) \<in> set (table_constraints users_table)
   \<and> table_constraints users_table \<noteq> [(''email'', UNIQUE)]
   \<and> create_user \<lparr>rows = [], seq = 9223372036854775807\<rparr> ''Ann'' ''ann@example.com'' ''user''
        ''2024-05-01 10:00:00'' = Inl OperationalError"
  by (simp add: table_constraints_def users_table_def create_user_def insert_user_def
                largest_rowid_def MAX_ROWID_def)

text \<open>
  C4, amended. The users table has the columns \<open>id\<close>, \<open>name\<close>, \<open>email\<close>, \<open>role\<close> and
  \<open>created_at\<close>; its constraints are the auto-incremented primary key \<open>id\<close>, \<open>NOT NULL\<close>
  on \<open>name\<close>, and \<open>UNIQUE\<close> and \<open>NOT NULL\<close> on \<open>email\<close>; \<open>role\<close> has the default
  \<open>user\<close> and \<open>created_at\<close> the current time. For every submission of the create form
  with a non-empty name and email, as long as the largest id that the table has held is
  below 9223372036854775807: the insert fails, showing \<open>Email already exists!\<close> and leaving
  the table as it was, if and only if a row with the same email exists; otherwise exactly
  one row is added after the rows that were there, with the next id, the given name, email
  and role and the current time, and the success message is shown. Once that largest id
  has been held, every such submission ends in an error that the handler does not catch:
  no row is added and the handler shows nothing.
\<close>

theorem create_user_unique_email:
  "map col_name users_table = [''id'', ''name'', ''email'', ''role'', ''created_at'']
   \<and> table_constraints users_table =
        [(''id'', PRIMARY_KEY_AUTOINCREMENT), (''name'', NOT_NULL), (''email'', UNIQUE),
         (''email'', NOT_NULL)]
   \<and> map col_default users_table =
        [NO_DEFAULT, NO_DEFAULT, NO_DEFAULT, DEFAULT ''user'', DEFAULT_CURRENT_TIMESTAMP]
   \<and> (name \<noteq> [] \<and> email \<noteq> []
        \<and> foldr max (map row_id (rows d)) (seq d) < 9223372036854775807 \<longrightarrow>
        ((create_user d name email role now = Inr (d, [Error ''Email already exists!''])) =
           (\<exists>r \<in> set (rows d). row_email r = email))
      \<and> (\<not> (\<exists>r \<in> set (rows d). row_email r = email) \<longrightarrow>
           create_user d name email role now =
             Inr (\<lparr>rows = rows d
                      @ [\<lparr>row_id = foldr max (map row_id (rows d)) (seq d) + 1,
                          row_name = name, row_email = email, row_role = Some role,
                          row_created_at = Some now\<rparr>],
                    seq = foldr max (map row_id (rows d)) (seq d) + 1\<rparr>,
                  [Success (''User '' @ [CHR 0x27] @ name @ [CHR 0x27]
                             @ '' created successfully!'')])))
   \<and> (name \<noteq> [] \<and> email \<noteq> []
        \<and> 9223372036854775807 \<le> foldr max (map row_id (rows d)) (seq d) \<longrightarrow>
        create_user d name email role now = Inl OperationalError)"
proof -
  have cols: "map col_name users_table = [''id'', ''name'', ''email'', ''role'', ''created_at'']"
    by (simp add: users_table_def)
  have cons: "table_constraints users_table =
        [(''id'', PRIMARY_KEY_AUTOINCREMENT), (''name'', NOT_NULL), (''email'', UNIQUE),
         (''email'', NOT_NULL)]"
    by (simp add: users_table_def table_constraints_def)
  have defaults: "map col_default users_table =
        [NO_DEFAULT, NO_DEFAULT, NO_DEFAULT, DEFAULT ''user'', DEFAULT_CURRENT_TIMESTAMP]"
    by (simp add: users_table_def)
  have room: "name \<noteq> [] \<and> email \<noteq> []
        \<and> foldr max (map row_id (rows d)) (seq d) < 9223372036854775807 \<longrightarrow>
        ((create_user d name email role now = Inr (d, [Error ''Email already exists!''])) =
           (\<exists>r \<in> set (rows d). row_email r = email))
      \<and> (\<not> (\<exists>r \<in> set (rows d). row_email r = email) \<longrightarrow>
           create_user d name email role now =
             Inr (\<lparr>rows = rows d
                      @ [\<lparr>row_id = foldr max (map row_id (rows d)) (seq d) + 1,
                          row_name = name, row_email = email, row_role = Some role,
                          row_created_at = Some now\<rparr>],
                    seq = foldr max (map row_id (rows d)) (seq d) + 1\<rparr>,
                  [Success (''User '' @ [CHR 0x27] @ name @ [CHR 0x27]
                             @ '' created successfully!'')]))"
    by (auto simp: create_user_def insert_user_def largest_rowid_def MAX_ROWID_def Let_def
                   image_iff)
  have full: "name \<noteq> [] \<and> email \<noteq> []
        \<and> 9223372036854775807 \<le> foldr max (map row_id (rows d)) (seq d) \<longrightarrow>
        create_user d name email role now = Inl OperationalError"
    by (simp add: create_user_def insert_user_def largest_rowid_def MAX_ROWID_def)
  from cols cons defaults room full show ?thesis by blast
qed

theorem create_user_unique_email_witness:
  "create_user
     \<lparr>rows = [\<lparr>row_id = 1, row_name = ''Ann'', row_email = ''ann@example.com'',
               row_role = Some ''user'', row_created_at = Some ''2024-05-01 10:00:00''\<rparr>],
      seq = 1\<rparr>
     ''Bob'' ''ann@example.com'' ''admin'' ''2024-05-02 11:00:00''
   = Inr (\<lparr>rows = [\<lparr>row_id = 1, row_name = ''Ann'', row_email = ''ann@example.com'',
                     row_role = Some ''user'', row_created_at = Some ''2024-05-01 10:00:00''\<rparr>],
            seq = 1\<rparr>,
          [Error ''Email already exists!''])
   \<and> create_user
     \<lparr>rows = [\<lparr>row_id = 1, row_name = ''Ann'', row_email = ''ann@example.com'',
               row_role = Some ''user'', row_created_at = Some ''2024-05-01 10:00:00''\<rparr>],
      seq = 4\<rparr>
     ''Bob'' ''bob@example.com'' ''admin'' ''2024-05-02 11:00:00''
   = Inr (\<lparr>rows = [\<lparr>row_id = 1, row_name = ''Ann'', row_email = ''ann@example.com'',
                     row_role = Some ''user'', row_created_at = Some ''2024-05-01 10:00:00''\<rparr>,
                   \<lparr>row_id = 5, row_name = ''Bob'', row_email = ''bob@example.com'',
                     row_role = Some ''admin'', row_created_at = Some ''2024-05-02 11:00:00''\<rparr>],
            seq = 5\<rparr>,
          [Success ''User 'Bob' created successfully!''])
   \<and> create_user
     \<lparr>rows = [\<lparr>row_id = 9223372036854775807, row_name = ''Ann'',
               row_email = ''ann@example.com'', row_role = Some ''user'',
               row_created_at = Some ''2024-05-01 10:00:00''\<rparr>],
      seq = 9223372036854775807\<rparr>
     ''Bob'' ''ann@example.com'' ''admin'' ''2024-05-02 11:00:00''
   = Inl OperationalError"
proof -
  note c2 = conjunct2
  let ?ann = "\<lparr>row_id = 1, row_name = ''Ann'', row_email = ''ann@example.com'',
               row_role = Some ''user'', row_created_at = Some ''2024-05-01 10:00:00''\<rparr>"
  have dup: "create_user \<lparr>rows = [?ann], seq = 1\<rparr>
               ''Bob'' ''ann@example.com'' ''admin'' ''2024-05-02 11:00:00''
             = Inr (\<lparr>rows = [?ann], seq = 1\<rparr>, [Error ''Email already exists!''])"
    using create_user_unique_email [of "''Bob''" "''ann@example.com''"
            "\<lparr>rows = [?ann], seq = 1\<rparr>" "''admin''" "''2024-05-02 11:00:00''",
            THEN c2, THEN c2, THEN c2, THEN conjunct1]
    by simp
  have fresh: "create_user \<lparr>rows = [?ann], seq = 4\<rparr>
               ''Bob'' ''bob@example.com'' ''admin'' ''2024-05-02 11:00:00''
             = Inr (\<lparr>rows = [?ann,
                     \<lparr>row_id = 5, row_name = ''Bob'', row_email = ''bob@example.com'',
                       row_role = Some ''admin'',
                       row_created_at = Some ''2024-05-02 11:00:00''\<rparr>],
                    seq = 5\<rparr>,
                  [Success ''User 'Bob' created successfully!''])"
    using create_user_unique_email [of "''Bob''" "''bob@example.com''"
            "\<lparr>rows = [?ann], seq = 4\<rparr>" "''admin''" "''2024-05-02 11:00:00''",
            THEN c2, THEN c2, THEN c2, THEN conjunct1]
    by simp
  have full: "create_user
     \<lparr>rows = [\<lparr>row_id = 9223372036854775807, row_name = ''Ann'',
               row_email = ''ann@example.com'', row_role = Some ''user'',
               row_created_at = Some ''2024-05-01 10:00:00''\<rparr>],
      seq = 9223372036854775807\<rparr>
     ''Bob'' ''ann@example.com'' ''admin'' ''2024-05-02 11:00:00''
   = Inl OperationalError"
    using create_user_unique_email [of "''Bob''" "''ann@example.com''"
            "\<lparr>rows = [\<lparr>row_id = 9223372036854775807, row_name = ''Ann'',
               row_email = ''ann@example.com'', row_role = Some ''user'',
               row_created_at = Some ''2024-05-01 10:00:00''\<rparr>],
              seq = 9223372036854775807\<rparr>" "''admin''" "''2024-05-02 11:00:00''",
            THEN c2, THEN c2, THEN c2, THEN c2]
    by simp
  from dup fresh full show ?thesis by blast
qed

section \<open>Quiz scoring (Chapter 8)\<close>

text \<open>The score is the number of answers that agree with the key written into the checks.\<close>

lemma check_answers_score:
  "fst (check_answers q1 q2 q3 q4 q5) =
     int (length (filter (\<lambda>correct. correct)
       [q1 = ''To prevent storing plain text passwords'', q2 = ''st.session_state'',
        q3 = ''st.stop()'', q4, q5 = ''bcrypt'']))"
  by (simp add: check_answers_def)

text \<open>
  C5. For every tuple of answers the score shown is the number of the five responses
  that equal the answer key, so it lies between 0 and 5; and when all five responses match
  the key the score is 5 and the message is
  \<open>Excellent! You understand authentication!\<close>.
\<close>

theorem quiz_score:
  "fst (check_answers q1 q2 q3 q4 q5) =
     int (length (filter (\<lambda>correct. correct)
       [q1 = ''To prevent storing plain text passwords'', q2 = ''st.session_state'',
        q3 = ''st.stop()'', q4, q5 = ''bcrypt'']))
   \<and> 0 \<le> fst (check_answers q1 q2 q3 q4 q5) \<and> fst (check_answers q1 q2 q3 q4 q5) \<le> 5
   \<and> (q1 = ''To prevent storing plain text passwords'' \<and> q2 = ''st.session_state''
        \<and> q3 = ''st.stop()'' \<and> q4 \<and> q5 = ''bcrypt'' \<longrightarrow>
          fst (check_answers q1 q2 q3 q4 q5) = 5
        \<and> snd (snd (check_answers q1 q2 q3 q4 q5)) =
            Success ''Excellent! You understand authentication!'')"
proof -
  have bounds: "0 \<le> fst (check_answers q1 q2 q3 q4 q5)
              \<and> fst (check_answers q1 q2 q3 q4 q5) \<le> 5"
    unfolding check_answers_score by simp
  have perfect: "q1 = ''To prevent storing plain text passwords'' \<and> q2 = ''st.session_state''
        \<and> q3 = ''st.stop()'' \<and> q4 \<and> q5 = ''bcrypt'' \<longrightarrow>
          fst (check_answers q1 q2 q3 q4 q5) = 5
        \<and> snd (snd (check_answers q1 q2 q3 q4 q5)) =
            Success ''Excellent! You understand authentication!''"
    by (simp add: check_answers_def)
  from check_answers_score bounds perfect show ?thesis by blast
qed

theorem quiz_score_witness:
  "check_answers ''To prevent storing plain text passwords'' ''st.session_state'' ''st.stop()''
     True ''bcrypt''
   = (5, [''Q1: Correct! Never store plain text passwords'', ''Q2: Correct!'', ''Q3: Correct!'',
          ''Q4: Correct! Session state is shared'', ''Q5: Correct! bcrypt is production-ready''],
      Success ''Excellent! You understand authentication!'')
   \<and> fst (check_answers ''To make them longer'' ''st.session_state'' ''return'' False ''bcrypt'')
     = 2"
proof -
  have fb: "fst (snd (check_answers ''To prevent storing plain text passwords''
                        ''st.session_state'' ''st.stop()'' True ''bcrypt''))
     = [''Q1: Correct! Never store plain text passwords'', ''Q2: Correct!'', ''Q3: Correct!'',
        ''Q4: Correct! Session state is shared'', ''Q5: Correct! bcrypt is production-ready'']"
    by (simp add: check_answers_def)
  show ?thesis
    using quiz_score [of "''To prevent storing plain text passwords''" "''st.session_state''"
                         "''st.stop()''" True "''bcrypt''"]
          quiz_score [of "''To make them longer''" "''st.session_state''" "''return''" False
                         "''bcrypt''"]
          fb
    by (simp add: prod_eq_iff)
qed

section \<open>Progress tracking (Chapter 13)\<close>

lemma click_in_range: "0 \<le> progress \<Longrightarrow> progress \<le> 100 \<Longrightarrow>
    0 \<le> click progress b \<and> click progress b \<le> 100"
  by (cases b) auto

lemma clicks_in_range: "0 \<le> progress \<Longrightarrow> progress \<le> 100 \<Longrightarrow>
    0 \<le> foldl click progress bs \<and> foldl click progress bs \<le> 100"
proof (induction bs arbitrary: progress)
  case Nil
  then show ?case by simp
next
  case (Cons b bs)
  from click_in_range [OF Cons.prems] have "0 \<le> click progress b" "click progress b \<le> 100"
    by simp_all
  from Cons.IH [OF this] show ?case by simp
qed

text \<open>
  C8. The progress value starts at 0; \<open>Add 10%\<close> sets it to \<open>min(100, progress + 10)\<close>,
  \<open>Subtract 10%\<close> to \<open>max(0, progress - 10)\<close> and \<open>Reset\<close> to 0; each of them takes a value
  in the range from 0 to 100 to a value in that range, so after any sequence of presses the
  value is still in the range.
\<close>

theorem progress_in_range:
  "progress_init = 0
   \<and> click progress Add_10 = min 100 (progress + 10)
   \<and> click progress Subtract_10 = max 0 (progress - 10)
   \<and> click progress Reset = 0
   \<and> (0 \<le> progress \<and> progress \<le> 100 \<longrightarrow>
        0 \<le> click progress b \<and> click progress b \<le> 100)
   \<and> 0 \<le> foldl click progress_init bs \<and> foldl click progress_init bs \<le> 100"
proof -
  have run: "0 \<le> foldl click progress_init bs \<and> foldl click progress_init bs \<le> 100"
    by (rule clicks_in_range) (simp_all add: progress_init_def)
  have step: "0 \<le> progress \<and> progress \<le> 100 \<longrightarrow>
        0 \<le> click progress b \<and> click progress b \<le> 100"
    using click_in_range by blast
  from run step show ?thesis by (simp add: progress_init_def)
qed

theorem progress_in_range_witness:
  "click 95 Add_10 = 100 \<and> click 5 Subtract_10 = 0 \<and> click 40 Reset = 0
   \<and> (0::int) \<le> 95 \<and> (95::int) \<le> 100
   \<and> 0 \<le> click 95 Add_10 \<and> click 95 Add_10 \<le> 100
   \<and> foldl click progress_init [Add_10, Add_10, Subtract_10, Subtract_10, Subtract_10, Add_10]
       \<le> 100"
  using progress_in_range [of 95 Add_10 "[Add_10, Add_10, Subtract_10, Subtract_10, Subtract_10, Add_10]"]
        progress_in_range [of 5 Subtract_10 "[]"]
        progress_in_range [of 40 Reset "[]"]
  by simp

section \<open>The session store: last write wins\<close>

lemma store_write_read: "store_read (store_write st k v) k' = (if k' = k then Some v else store_read st k')"
  by (simp add: store_write_def store_read_def)

text \<open>
  C7. With the session store as a map from string keys to values: writing \<open>v1\<close> and then
  \<open>v2\<close> to a key and reading the key gives \<open>v2\<close>, and a write to a key leaves the value
  of every other key as it was. The updates of the pages are such writes: a cart append
  that goes through changes the key \<open>cart\<close> only, to the old list with the new item at the
  end, and a refresh that goes through changes the key \<open>refresh_count\<close> only, to the old
  count plus one; both go through once the key has been initialised.
\<close>

theorem last_write_wins:
  "store_read (store_write (store_write st k v1) k v2) k = Some v2
   \<and> (k' \<noteq> k \<longrightarrow> store_read (store_write st k v) k' = store_read st k')
   \<and> (\<forall>st'. add_to_cart st prd price = Some st' \<longrightarrow>
         (\<exists>cart. store_read st ''cart'' = Some (PyList cart)
            \<and> store_read st' ''cart'' =
                Some (PyList (cart @ [PyDict [(''product'', PyStr prd), (''price'', PyInt price)]])))
         \<and> (\<forall>j. j \<noteq> ''cart'' \<longrightarrow> store_read st' j = store_read st j))
   \<and> (\<forall>st'. refresh_data st = Some st' \<longrightarrow>
         (\<exists>n. store_read st ''refresh_count'' = Some (PyInt n)
            \<and> store_read st' ''refresh_count'' = Some (PyInt (n + 1)))
         \<and> (\<forall>j. j \<noteq> ''refresh_count'' \<longrightarrow> store_read st' j = store_read st j))
   \<and> (store_read st ''cart'' = None \<longrightarrow> add_to_cart (init_cart st) prd price \<noteq> None)
   \<and> (store_read st ''refresh_count'' = None \<longrightarrow> refresh_data (init_refresh_count st) \<noteq> None)"
proof -
  have w: "store_read (store_write (store_write st k v1) k v2) k = Some v2"
    by (simp add: store_write_read)
  have o: "k' \<noteq> k \<longrightarrow> store_read (store_write st k v) k' = store_read st k'"
    by (simp add: store_write_read)
  have c: "\<forall>st'. add_to_cart st prd price = Some st' \<longrightarrow>
         (\<exists>cart. store_read st ''cart'' = Some (PyList cart)
            \<and> store_read st' ''cart'' =
                Some (PyList (cart @ [PyDict [(''product'', PyStr prd), (''price'', PyInt price)]])))
         \<and> (\<forall>j. j \<noteq> ''cart'' \<longrightarrow> store_read st' j = store_read st j)"
    by (auto simp: add_to_cart_def store_write_read split: option.splits pyval.splits)
  have r: "\<forall>st'. refresh_data st = Some st' \<longrightarrow>
         (\<exists>n. store_read st ''refresh_count'' = Some (PyInt n)
            \<and> store_read st' ''refresh_count'' = Some (PyInt (n + 1)))
         \<and> (\<forall>j. j \<noteq> ''refresh_count'' \<longrightarrow> store_read st' j = store_read st j)"
    by (auto simp: refresh_data_def store_write_read split: option.splits pyval.splits)
  have ic: "store_read st ''cart'' = None \<longrightarrow> add_to_cart (init_cart st) prd price \<noteq> None"
    by (simp add: add_to_cart_def init_cart_def store_write_read)
  have ir: "store_read st ''refresh_count'' = None \<longrightarrow>
              refresh_data (init_refresh_count st) \<noteq> None"
    by (simp add: refresh_data_def init_refresh_count_def store_write_read)
  from w o c r ic ir show ?thesis by blast
qed

theorem last_write_wins_witness:
  "store_read (store_write (store_write Map.empty ''authenticated'' (PyBool False))
                 ''authenticated'' (PyBool True)) ''authenticated'' = Some (PyBool True)
   \<and> store_read (store_write [''refresh_count'' \<mapsto> PyInt 3] ''cart'' (PyList []))
        ''refresh_count'' = Some (PyInt 3)
   \<and> add_to_cart (init_cart Map.empty) ''Mouse'' 25 \<noteq> None
   \<and> refresh_data (init_refresh_count Map.empty) \<noteq> None"
  using last_write_wins [of Map.empty "''authenticated''" "PyBool False" "PyBool True"
                            "''refresh_count''" "PyBool True" "''Mouse''" 25]
        last_write_wins [of "[''refresh_count'' \<mapsto> PyInt 3]" "''cart''" "PyList []" "PyList []"
                            "''refresh_count''" "PyList []" "''Mouse''" 25]
  by (simp add: store_read_def)

section \<open>Password strength (Chapter 10)\<close>

lemma strength_is_count:
  "fst (strength_feedback password_input) =
     int (length (filter (\<lambda>met. met)
       [8 \<le> length password_input, has_upper password_input, has_lower password_input,
        has_digit password_input, has_special password_input]))"
  by (simp add: strength_feedback_def)

lemma strength_range:
  "0 \<le> fst (strength_feedback password_input) \<and> fst (strength_feedback password_input) \<le> 5"
  unfolding strength_is_count by simp

text \<open>
  C10. For every non-empty password the strength score is the number of the five criteria
  it meets (at least 8 characters, an upper-case letter \<open>A-Z\<close>, a lower-case letter
  \<open>a-z\<close>, a digit, one of the listed special characters), so it lies between 0 and 5; the
  verdict is \<open>Weak\<close> if and only if the score is at most 2, \<open>Medium\<close> if and only if it
  is 3, and \<open>Strong\<close> if and only if it is at least 4.
\<close>

theorem password_strength:
  assumes "password_input \<noteq> []"
  shows "fst (strength_feedback password_input) =
           int (length (filter (\<lambda>met. met)
             [8 \<le> length password_input,
              \<exists>c \<in> set password_input. CHR ''A'' \<le> c \<and> c \<le> CHR ''Z'',
              \<exists>c \<in> set password_input. CHR ''a'' \<le> c \<and> c \<le> CHR ''z'',
              \<exists>c \<in> set password_input. CHR ''0'' \<le> c \<and> c \<le> CHR ''9'',
              \<exists>c \<in> set password_input. c \<in> set special_chars]))
       \<and> 0 \<le> fst (strength_feedback password_input)
       \<and> fst (strength_feedback password_input) \<le> 5
       \<and> snd (password_validation password_input) = snd (strength_feedback password_input)
       \<and> ((fst (password_validation password_input) =
              Error (''Weak Password (Score: ''
                      @ str_int (fst (strength_feedback password_input)) @ ''/5)'')) =
            (fst (strength_feedback password_input) \<le> 2))
       \<and> ((fst (password_validation password_input) =
              Warning (''Medium Password (Score: ''
                        @ str_int (fst (strength_feedback password_input)) @ ''/5)'')) =
            (fst (strength_feedback password_input) = 3))
       \<and> ((fst (password_validation password_input) =
              Success (''Strong Password (Score: ''
                        @ str_int (fst (strength_feedback password_input)) @ ''/5)'')) =
            (4 \<le> fst (strength_feedback password_input)))"
proof -
  have cnt: "fst (strength_feedback password_input) =
           int (length (filter (\<lambda>met. met)
             [8 \<le> length password_input,
              \<exists>c \<in> set password_input. CHR ''A'' \<le> c \<and> c \<le> CHR ''Z'',
              \<exists>c \<in> set password_input. CHR ''a'' \<le> c \<and> c \<le> CHR ''z'',
              \<exists>c \<in> set password_input. CHR ''0'' \<le> c \<and> c \<le> CHR ''9'',
              \<exists>c \<in> set password_input. c \<in> set special_chars]))"
    unfolding strength_is_count has_upper_def has_lower_def has_digit_def has_special_def ..
  obtain strength feedback where sf: "strength_feedback password_input = (strength, feedback)"
    by (cases "strength_feedback password_input")
  have v: "password_validation password_input =
      (if strength \<le> 2
         then Error (''Weak Password (Score: '' @ str_int strength @ ''/5)'')
       else if strength \<le> 3
         then Warning (''Medium Password (Score: '' @ str_int strength @ ''/5)'')
       else Success (''Strong Password (Score: '' @ str_int strength @ ''/5)''),
       feedback)"
    using assms by (simp add: password_validation_def sf)
  have verdicts: "snd (password_validation password_input) = feedback
       \<and> ((fst (password_validation password_input) =
              Error (''Weak Password (Score: '' @ str_int strength @ ''/5)'')) = (strength \<le> 2))
       \<and> ((fst (password_validation password_input) =
              Warning (''Medium Password (Score: '' @ str_int strength @ ''/5)'')) = (strength = 3))
       \<and> ((fst (password_validation password_input) =
              Success (''Strong Password (Score: '' @ str_int strength @ ''/5)'')) = (4 \<le> strength))"
    unfolding v by auto
  from cnt strength_range [of password_input] verdicts show ?thesis
    unfolding sf by simp
qed

theorem password_strength_witness:
  "''Abc123!x'' \<noteq> []
   \<and> password_validation ''Abc123!x'' =
       (Success ''Strong Password (Score: 5/5)'',
        [''Length OK (8+ characters)'', ''Has uppercase letter'', ''Has lowercase letter'',
         ''Has number'', ''Has special character''])
   \<and> fst (password_validation ''abcdefgh'') = Error ''Weak Password (Score: 2/5)''
   \<and> fst (password_validation ''Abc1'') = Warning ''Medium Password (Score: 3/5)''"
proof -
  have s1: "strength_feedback ''Abc123!x'' =
      (5, [''Length OK (8+ characters)'', ''Has uppercase letter'', ''Has lowercase letter'',
           ''Has number'', ''Has special character''])"
    by (simp add: strength_feedback_def has_upper_def has_lower_def has_digit_def
                  has_special_def special_chars_def less_eq_char_def)
  have s2: "fst (strength_feedback ''abcdefgh'') = 2"
    by (simp add: strength_feedback_def has_upper_def has_lower_def has_digit_def
                  has_special_def special_chars_def less_eq_char_def)
  have s3: "fst (strength_feedback ''Abc1'') = 3"
    by (simp add: strength_feedback_def has_upper_def has_lower_def has_digit_def
                  has_special_def special_chars_def less_eq_char_def)
  have d: "str_int 5 = ''5''" "str_int 2 = ''2''" "str_int 3 = ''3''"
    by (simp_all add: str_int_def str_nat.simps char_of_def bit_simps)
  have n: "''Abc123!x'' \<noteq> []" "''abcdefgh'' \<noteq> []" "''Abc1'' \<noteq> []"
    by simp_all
  note c2 = conjunct2
  have fb: "snd (password_validation ''Abc123!x'') = snd (strength_feedback ''Abc123!x'')"
    by (rule password_strength [OF n(1), THEN c2, THEN c2, THEN c2, THEN conjunct1])
  have strong: "(fst (password_validation ''Abc123!x'') =
                  Success (''Strong Password (Score: ''
                            @ str_int (fst (strength_feedback ''Abc123!x'')) @ ''/5)'')) =
                (4 \<le> fst (strength_feedback ''Abc123!x''))"
    by (rule password_strength [OF n(1), THEN c2, THEN c2, THEN c2, THEN c2, THEN c2, THEN c2])
  have weak: "(fst (password_validation ''abcdefgh'') =
                  Error (''Weak Password (Score: ''
                          @ str_int (fst (strength_feedback ''abcdefgh'')) @ ''/5)'')) =
                (fst (strength_feedback ''abcdefgh'') \<le> 2)"
    by (rule password_strength [OF n(2), THEN c2, THEN c2, THEN c2, THEN c2, THEN conjunct1])
  have medium: "(fst (password_validation ''Abc1'') =
                  Warning (''Medium Password (Score: ''
                            @ str_int (fst (strength_feedback ''Abc1'')) @ ''/5)'')) =
                (fst (strength_feedback ''Abc1'') = 3)"
    by (rule password_strength [OF n(3), THEN c2, THEN c2, THEN c2, THEN c2, THEN c2,
                                THEN conjunct1])
  have r1: "password_validation ''Abc123!x'' =
       (Success ''Strong Password (Score: 5/5)'',
        [''Length OK (8+ characters)'', ''Has uppercase letter'', ''Has lowercase letter'',
         ''Has number'', ''Has special character''])"
    using fb strong unfolding s1 by (simp add: prod_eq_iff d)
  have r2: "fst (password_validation ''abcdefgh'') = Error ''Weak Password (Score: 2/5)''"
    using weak unfolding s2 by (simp add: d)
  have r3: "fst (password_validation ''Abc1'') = Warning ''Medium Password (Score: 3/5)''"
    using medium unfolding s3 by (simp add: d)
  from n(1) r1 r2 r3 show ?thesis by blast
qed

section \<open>The multi-step form (Chapter 10)\<close>

lemma tab4_form_step:
  "form_step s \<in> {1, 2, 3, 4} \<Longrightarrow> form_step (fst (tab4 s ev)) \<in> {1, 2, 3, 4}"
  by (cases ev)
     (auto simp: tab4_def step1_next_def step2_back_def step2_next_def step3_back_def
                 step3_next_def step4_back_def step4_submit_def Let_def)

lemma wizard_reachable_form_step: "wizard_reachable s \<Longrightarrow> form_step s \<in> {1, 2, 3, 4}"
proof (induction rule: wizard_reachable.induct)
  case start
  show ?case by (simp add: wizard_init_def)
next
  case (press s ev)
  from press.IH show ?case by (rule tab4_form_step)
next
  case (elsewhere s d fs)
  then show ?case by simp
qed

lemma tab4_next1:
  "form_step s = 1 \<Longrightarrow>
   tab4 s (Step1_Next first_name last_name email phone birthdate) =
     (if step1_errors first_name last_name email phone = []
      then (s\<lparr>form_data := dict_update (form_data s)
                  (step1_fields first_name last_name email phone birthdate),
               form_step := form_step s + 1\<rparr>, [])
      else (s, map Error (step1_errors first_name last_name email phone)))"
  by (simp add: tab4_def step1_next_def Let_def)

lemma tab4_next2:
  "form_step s = 2 \<Longrightarrow>
   tab4 s (Step2_Next street city state zipcode country) =
     (if step2_errors street city state zipcode = []
      then (s\<lparr>form_data := dict_update (form_data s)
                  (step2_fields street city state zipcode country),
               form_step := form_step s + 1\<rparr>, [])
      else (s, map Error (step2_errors street city state zipcode)))"
  by (simp add: tab4_def step2_next_def Let_def)

lemma tab4_next3:
  "form_step s = 3 \<Longrightarrow>
   tab4 s (Step3_Next username password confirm_password security_question security_answer) =
     (if step3_errors username password confirm_password security_answer = []
      then (s\<lparr>form_data := dict_update (form_data s)
                  (step3_fields username security_question security_answer),
               form_step := form_step s + 1\<rparr>, [])
      else (s, map Error (step3_errors username password confirm_password security_answer)))"
  by (simp add: tab4_def step3_next_def Let_def)

lemma tab4_back:
  "form_step s = 2 \<Longrightarrow> tab4 s Step2_Back = (s\<lparr>form_step := form_step s - 1\<rparr>, [])"
  "form_step s = 3 \<Longrightarrow> tab4 s Step3_Back = (s\<lparr>form_step := form_step s - 1\<rparr>, [])"
  "form_step s = 4 \<Longrightarrow> tab4 s Step4_Back = (s\<lparr>form_step := form_step s - 1\<rparr>, [])"
  by (simp_all add: tab4_def step2_back_def step3_back_def step4_back_def)

lemma tab4_submit:
  "form_step s = 4 \<Longrightarrow>
   tab4 s (Step4_Submit now) =
     (\<lparr>form_step = 1, form_data = [],
       submitted_forms = submitted_forms s @ [application (form_data s) now]\<rparr>,
      [Success ''Application submitted successfully!''])"
  by (simp add: tab4_def step4_submit_def)

text \<open>What the checks of the three steps accept.\<close>

lemma step_errors_empty:
  "(step1_errors first_name last_name email phone = []) =
     (first_name \<noteq> [] \<and> last_name \<noteq> [] \<and> email \<noteq> [] \<and> CHR ''@'' \<in> set email
      \<and> phone \<noteq> [])"
  "(step2_errors street city state zipcode = []) =
     (street \<noteq> [] \<and> city \<noteq> [] \<and> state \<noteq> [] \<and> zipcode \<noteq> [])"
  "(step3_errors username password confirm_password security_answer = []) =
     (3 \<le> length username \<and> 8 \<le> length password \<and> password = confirm_password
      \<and> security_answer \<noteq> [])"
  by (auto simp: step1_errors_def step2_errors_def step3_errors_def)

lemma dict_update_lookup:
  "map_of (dict_update d items) k =
     (case map_of (rev items) k of None \<Rightarrow> map_of d k | Some v \<Rightarrow> Some v)"
proof (induction items arbitrary: d)
  case Nil
  show ?case by (simp add: dict_update_def)
next
  case (Cons item items)
  obtain k' v' where item: "item = (k', v')" by (cases item)
  have "dict_update d (item # items) = dict_update (AList.update k' v' d) items"
    by (simp add: dict_update_def item)
  then show ?case
    using Cons.IH [of "AList.update k' v' d"]
    by (simp add: item update_conv' map_add_def split: option.splits)
qed

text \<open>
  C9. \<open>form_step\<close> starts at 1 and is one of 1, 2, 3, 4 in every state the wizard can
  reach. In step 1, 2 or 3, \<open>Next\<close> adds exactly 1 to \<open>form_step\<close> and merges the fields of
  the step into \<open>form_data\<close> when all checks of the step pass, and changes nothing when one
  fails. The fields of step 1 are first name, last name, email, phone and birth date; of
  step 2 street, city, state, ZIP code and country; of step 3 user name, security question
  and security answer, with the text \<open>***hidden***\<close> stored in place of the password. To
  merge is to store each field under its key: a key that \<open>form_data\<close> has gets the new
  value, the other keys keep theirs. In step 2, 3 or 4, \<open>Back\<close> takes exactly 1 from
  \<open>form_step\<close> and changes nothing else. In step 4 the submission appends one record,
  holding the collected \<open>form_data\<close>, to \<open>submitted_forms\<close>, sets \<open>form_step\<close> to 1 and
  empties \<open>form_data\<close>.
\<close>

theorem wizard_state_machine:
  assumes "wizard_reachable s"
  shows "form_step wizard_init = 1
       \<and> form_step s \<in> {1, 2, 3, 4}
       \<and> form_step (fst (tab4 s ev)) \<in> {1, 2, 3, 4}
       \<and> (form_step s = 1 \<longrightarrow>
            fst (tab4 s (Step1_Next first_name last_name email phone birthdate)) =
              (if first_name \<noteq> [] \<and> last_name \<noteq> [] \<and> email \<noteq> []
                  \<and> CHR ''@'' \<in> set email \<and> phone \<noteq> []
               then s\<lparr>form_data := dict_update (form_data s)
                          [(''first_name'', PyStr first_name), (''last_name'', PyStr last_name),
                           (''email'', PyStr email), (''phone'', PyStr phone),
                           (''birthdate'', PyDate birthdate)],
                       form_step := form_step s + 1\<rparr>
               else s))
       \<and> (form_step s = 2 \<longrightarrow>
            fst (tab4 s (Step2_Next street city state zipcode country)) =
              (if street \<noteq> [] \<and> city \<noteq> [] \<and> state \<noteq> [] \<and> zipcode \<noteq> []
               then s\<lparr>form_data := dict_update (form_data s)
                          [(''street'', PyStr street), (''city'', PyStr city),
                           (''state'', PyStr state), (''zipcode'', PyStr zipcode),
                           (''country'', PyStr country)],
                       form_step := form_step s + 1\<rparr>
               else s)
          \<and> fst (tab4 s Step2_Back) = s\<lparr>form_step := form_step s - 1\<rparr>)
       \<and> (form_step s = 3 \<longrightarrow>
            fst (tab4 s (Step3_Next username password confirm_password security_question
                           security_answer)) =
              (if 3 \<le> length username \<and> 8 \<le> length password
                  \<and> password = confirm_password \<and> security_answer \<noteq> []
               then s\<lparr>form_data := dict_update (form_data s)
                          [(''username'', PyStr username), (''password'', PyStr ''***hidden***''),
                           (''security_question'', PyStr security_question),
                           (''security_answer'', PyStr security_answer)],
                       form_step := form_step s + 1\<rparr>
               else s)
          \<and> fst (tab4 s Step3_Back) = s\<lparr>form_step := form_step s - 1\<rparr>)
       \<and> (form_step s = 4 \<longrightarrow>
            fst (tab4 s Step4_Back) = s\<lparr>form_step := form_step s - 1\<rparr>
          \<and> fst (tab4 s (Step4_Submit now)) =
              \<lparr>form_step = 1, form_data = [],
               submitted_forms = submitted_forms s
                 @ [PyDict [(''type'', PyStr ''multi-step-application''),
                            (''data'', PyDict (form_data s)), (''timestamp'', PyStr now)]]\<rparr>)
       \<and> map_of (dict_update d items) k =
            (case map_of (rev items) k of None \<Rightarrow> map_of d k | Some v \<Rightarrow> Some v)"
proof -
  have i: "form_step wizard_init = 1"
    by (simp add: wizard_init_def)
  have inv: "form_step s \<in> {1, 2, 3, 4}"
    using assms by (rule wizard_reachable_form_step)
  have inv': "form_step (fst (tab4 s ev)) \<in> {1, 2, 3, 4}"
    using inv by (rule tab4_form_step)
  have s1: "form_step s = 1 \<longrightarrow>
            fst (tab4 s (Step1_Next first_name last_name email phone birthdate)) =
              (if first_name \<noteq> [] \<and> last_name \<noteq> [] \<and> email \<noteq> []
                  \<and> CHR ''@'' \<in> set email \<and> phone \<noteq> []
               then s\<lparr>form_data := dict_update (form_data s)
                          [(''first_name'', PyStr first_name), (''last_name'', PyStr last_name),
                           (''email'', PyStr email), (''phone'', PyStr phone),
                           (''birthdate'', PyDate birthdate)],
                       form_step := form_step s + 1\<rparr>
               else s)"
    by (simp add: tab4_next1 step_errors_empty(1) step1_fields_def)
  have s2: "form_step s = 2 \<longrightarrow>
            fst (tab4 s (Step2_Next street city state zipcode country)) =
              (if street \<noteq> [] \<and> city \<noteq> [] \<and> state \<noteq> [] \<and> zipcode \<noteq> []
               then s\<lparr>form_data := dict_update (form_data s)
                          [(''street'', PyStr street), (''city'', PyStr city),
                           (''state'', PyStr state), (''zipcode'', PyStr zipcode),
                           (''country'', PyStr country)],
                       form_step := form_step s + 1\<rparr>
               else s)
          \<and> fst (tab4 s Step2_Back) = s\<lparr>form_step := form_step s - 1\<rparr>"
    by (simp add: tab4_next2 tab4_back(1) step_errors_empty(2) step2_fields_def)
  have s3: "form_step s = 3 \<longrightarrow>
            fst (tab4 s (Step3_Next username password confirm_password security_question
                           security_answer)) =
              (if 3 \<le> length username \<and> 8 \<le> length password
                  \<and> password = confirm_password \<and> security_answer \<noteq> []
               then s\<lparr>form_data := dict_update (form_data s)
                          [(''username'', PyStr username), (''password'', PyStr ''***hidden***''),
                           (''security_question'', PyStr security_question),
                           (''security_answer'', PyStr security_answer)],
                       form_step := form_step s + 1\<rparr>
               else s)
          \<and> fst (tab4 s Step3_Back) = s\<lparr>form_step := form_step s - 1\<rparr>"
    by (auto simp: tab4_next3 tab4_back(2) step_errors_empty(3) step3_fields_def)
  have s4: "form_step s = 4 \<longrightarrow>
            fst (tab4 s Step4_Back) = s\<lparr>form_step := form_step s - 1\<rparr>
          \<and> fst (tab4 s (Step4_Submit now)) =
              \<lparr>form_step = 1, form_data = [],
               submitted_forms = submitted_forms s
                 @ [PyDict [(''type'', PyStr ''multi-step-application''),
                            (''data'', PyDict (form_data s)), (''timestamp'', PyStr now)]]\<rparr>"
    by (simp add: tab4_back(3) tab4_submit application_def)
  from i inv inv' s1 s2 s3 s4 dict_update_lookup [of d items k] show ?thesis by blast
qed

theorem wizard_state_machine_witness:
  "wizard_reachable wizard_init
   \<and> foldl (\<lambda>s ev. fst (tab4 s ev)) wizard_init
        [Step1_Next ''Ann'' ''Lee'' ''ann@example.com'' ''555-0100'' (Date 2000 1 1),
         Step2_Next ''1 Main St'' '''' ''IL'' ''62701'' ''USA'',
         Step2_Next ''1 Main St'' ''Springfield'' ''IL'' ''62701'' ''USA'',
         Step3_Back,
         Step2_Next ''1 Main St'' ''Chicago'' ''IL'' ''62701'' ''USA'',
         Step3_Next ''annlee'' ''short'' ''short''
           ''What city were you born in?'' ''Springfield'',
         Step3_Next ''annlee'' ''password1'' ''password1''
           ''What city were you born in?'' ''Springfield'',
         Step4_Back,
         Step3_Next ''annlee'' ''password1'' ''password1''
           ''What city were you born in?'' ''Springfield'',
         Step4_Submit ''2024-05-01 10:00:00'']
       = \<lparr>form_step = 1, form_data = [],
         submitted_forms = [PyDict [(''type'', PyStr ''multi-step-application''),
         (''data'', PyDict [(''first_name'', PyStr ''Ann''), (''last_name'', PyStr ''Lee''),
         (''email'', PyStr ''ann@example.com''), (''phone'', PyStr ''555-0100''),
         (''birthdate'', PyDate (Date 2000 1 1)), (''street'', PyStr ''1 Main St''),
         (''city'', PyStr ''Chicago''), (''state'', PyStr ''IL''),
         (''zipcode'', PyStr ''62701''), (''country'', PyStr ''USA''),
         (''username'', PyStr ''annlee''), (''password'', PyStr ''***hidden***''),
         (''security_question'', PyStr ''What city were you born in?''),
         (''security_answer'', PyStr ''Springfield'')]),
         (''timestamp'', PyStr ''2024-05-01 10:00:00'')]]\<rparr>
   \<and> fst (tab4 \<lparr>form_step = 4, form_data = [(''first_name'', PyStr ''Ann''),
              (''last_name'', PyStr ''Lee''), (''email'', PyStr ''ann@example.com''),
              (''phone'', PyStr ''555-0100''), (''birthdate'', PyDate (Date 2000 1 1)),
              (''street'', PyStr ''1 Main St''), (''city'', PyStr ''Chicago''),
              (''state'', PyStr ''IL''), (''zipcode'', PyStr ''62701''),
              (''country'', PyStr ''USA''), (''username'', PyStr ''annlee''),
              (''password'', PyStr ''***hidden***''),
              (''security_question'', PyStr ''What city were you born in?''),
              (''security_answer'', PyStr ''Springfield'')], submitted_forms = []\<rparr>
          Step4_Back)
       = \<lparr>form_step = 3, form_data = [(''first_name'', PyStr ''Ann''),
         (''last_name'', PyStr ''Lee''), (''email'', PyStr ''ann@example.com''),
         (''phone'', PyStr ''555-0100''), (''birthdate'', PyDate (Date 2000 1 1)),
         (''street'', PyStr ''1 Main St''), (''city'', PyStr ''Chicago''),
         (''state'', PyStr ''IL''), (''zipcode'', PyStr ''62701''), (''country'', PyStr ''USA''),
         (''username'', PyStr ''annlee''), (''password'', PyStr ''***hidden***''),
         (''security_question'', PyStr ''What city were you born in?''),
         (''security_answer'', PyStr ''Springfield'')], submitted_forms = []\<rparr>"
proof -
  note c2 = conjunct2
  let ?s1 = "\<lparr>form_step = 2, form_data = [(''first_name'', PyStr ''Ann''),
              (''last_name'', PyStr ''Lee''), (''email'', PyStr ''ann@example.com''),
              (''phone'', PyStr ''555-0100''), (''birthdate'', PyDate (Date 2000 1 1))],
              submitted_forms = []\<rparr>"
  let ?s2 = "\<lparr>form_step = 3, form_data = [(''first_name'', PyStr ''Ann''),
              (''last_name'', PyStr ''Lee''), (''email'', PyStr ''ann@example.com''),
              (''phone'', PyStr ''555-0100''), (''birthdate'', PyDate (Date 2000 1 1)),
              (''street'', PyStr ''1 Main St''), (''city'', PyStr ''Springfield''),
              (''state'', PyStr ''IL''), (''zipcode'', PyStr ''62701''),
              (''country'', PyStr ''USA'')], submitted_forms = []\<rparr>"
  let ?s2b = "\<lparr>form_step = 2, form_data = [(''first_name'', PyStr ''Ann''),
              (''last_name'', PyStr ''Lee''), (''email'', PyStr ''ann@example.com''),
              (''phone'', PyStr ''555-0100''), (''birthdate'', PyDate (Date 2000 1 1)),
              (''street'', PyStr ''1 Main St''), (''city'', PyStr ''Springfield''),
              (''state'', PyStr ''IL''), (''zipcode'', PyStr ''62701''),
              (''country'', PyStr ''USA'')], submitted_forms = []\<rparr>"
  let ?s3 = "\<lparr>form_step = 3, form_data = [(''first_name'', PyStr ''Ann''),
              (''last_name'', PyStr ''Lee''), (''email'', PyStr ''ann@example.com''),
              (''phone'', PyStr ''555-0100''), (''birthdate'', PyDate (Date 2000 1 1)),
              (''street'', PyStr ''1 Main St''), (''city'', PyStr ''Chicago''),
              (''state'', PyStr ''IL''), (''zipcode'', PyStr ''62701''),
              (''country'', PyStr ''USA'')], submitted_forms = []\<rparr>"
  let ?s4 = "\<lparr>form_step = 4, form_data = [(''first_name'', PyStr ''Ann''),
              (''last_name'', PyStr ''Lee''), (''email'', PyStr ''ann@example.com''),
              (''phone'', PyStr ''555-0100''), (''birthdate'', PyDate (Date 2000 1 1)),
              (''street'', PyStr ''1 Main St''), (''city'', PyStr ''Chicago''),
              (''state'', PyStr ''IL''), (''zipcode'', PyStr ''62701''),
              (''country'', PyStr ''USA''), (''username'', PyStr ''annlee''),
              (''password'', PyStr ''***hidden***''),
              (''security_question'', PyStr ''What city were you born in?''),
              (''security_answer'', PyStr ''Springfield'')], submitted_forms = []\<rparr>"
  let ?s4b = "\<lparr>form_step = 3, form_data = [(''first_name'', PyStr ''Ann''),
              (''last_name'', PyStr ''Lee''), (''email'', PyStr ''ann@example.com''),
              (''phone'', PyStr ''555-0100''), (''birthdate'', PyDate (Date 2000 1 1)),
              (''street'', PyStr ''1 Main St''), (''city'', PyStr ''Chicago''),
              (''state'', PyStr ''IL''), (''zipcode'', PyStr ''62701''),
              (''country'', PyStr ''USA''), (''username'', PyStr ''annlee''),
              (''password'', PyStr ''***hidden***''),
              (''security_question'', PyStr ''What city were you born in?''),
              (''security_answer'', PyStr ''Springfield'')], submitted_forms = []\<rparr>"
  let ?fin = "\<lparr>form_step = 1, form_data = [],
              submitted_forms = [PyDict [(''type'', PyStr ''multi-step-application''),
              (''data'', PyDict [(''first_name'', PyStr ''Ann''), (''last_name'', PyStr ''Lee''),
              (''email'', PyStr ''ann@example.com''), (''phone'', PyStr ''555-0100''),
              (''birthdate'', PyDate (Date 2000 1 1)), (''street'', PyStr ''1 Main St''),
              (''city'', PyStr ''Chicago''), (''state'', PyStr ''IL''),
              (''zipcode'', PyStr ''62701''), (''country'', PyStr ''USA''),
              (''username'', PyStr ''annlee''), (''password'', PyStr ''***hidden***''),
              (''security_question'', PyStr ''What city were you born in?''),
              (''security_answer'', PyStr ''Springfield'')]),
              (''timestamp'', PyStr ''2024-05-01 10:00:00'')]]\<rparr>"
  let ?ev1 = "Step1_Next ''Ann'' ''Lee'' ''ann@example.com'' ''555-0100'' (Date 2000 1 1)"
  let ?ev2 = "Step2_Next ''1 Main St'' '''' ''IL'' ''62701'' ''USA''"
  let ?ev3 = "Step2_Next ''1 Main St'' ''Springfield'' ''IL'' ''62701'' ''USA''"
  let ?ev4 = "Step2_Next ''1 Main St'' ''Chicago'' ''IL'' ''62701'' ''USA''"
  let ?ev5 = "Step3_Next ''annlee'' ''short'' ''short''
               ''What city were you born in?'' ''Springfield''"
  let ?ev6 = "Step3_Next ''annlee'' ''password1'' ''password1''
               ''What city were you born in?'' ''Springfield''"
  let ?ev7 = "Step4_Submit ''2024-05-01 10:00:00''"
  have r_s0: "wizard_reachable wizard_init"
    by (rule wizard_reachable.start)
  have e1: "fst (tab4 wizard_init ?ev1) = ?s1"
    using wizard_state_machine [OF r_s0, where first_name = "''Ann''" and last_name = "''Lee''"
          and email = "''ann@example.com''" and phone = "''555-0100''"
          and birthdate = "Date 2000 1 1", THEN c2, THEN c2, THEN c2, THEN conjunct1]
    by (simp add: wizard_init_def dict_update_def)
  have r_s1: "wizard_reachable ?s1"
    using wizard_reachable.press [OF r_s0, of "?ev1"] unfolding e1 .
  have e2: "fst (tab4 ?s1 ?ev2) = ?s1"
    using wizard_state_machine [OF r_s1, where street = "''1 Main St''" and city = "''''"
          and state = "''IL''" and zipcode = "''62701''"
          and country = "''USA''", THEN c2, THEN c2, THEN c2, THEN c2, THEN conjunct1]
    by (simp add: wizard_init_def dict_update_def)
  have e3: "fst (tab4 ?s1 ?ev3) = ?s2"
    using wizard_state_machine [OF r_s1, where street = "''1 Main St''"
          and city = "''Springfield''" and state = "''IL''" and zipcode = "''62701''"
          and country = "''USA''", THEN c2, THEN c2, THEN c2, THEN c2, THEN conjunct1]
    by (simp add: wizard_init_def dict_update_def)
  have r_s2: "wizard_reachable ?s2"
    using wizard_reachable.press [OF r_s1, of "?ev3"] unfolding e3 .
  have e4: "fst (tab4 ?s2 Step3_Back) = ?s2b"
    using wizard_state_machine [OF r_s2, THEN c2, THEN c2, THEN c2, THEN c2, THEN c2,
          THEN conjunct1]
    by (simp add: wizard_init_def dict_update_def)
  have r_s2b: "wizard_reachable ?s2b"
    using wizard_reachable.press [OF r_s2, of "Step3_Back"] unfolding e4 .
  have e5: "fst (tab4 ?s2b ?ev4) = ?s3"
    using wizard_state_machine [OF r_s2b, where street = "''1 Main St''"
          and city = "''Chicago''" and state = "''IL''" and zipcode = "''62701''"
          and country = "''USA''", THEN c2, THEN c2, THEN c2, THEN c2, THEN conjunct1]
    by (simp add: wizard_init_def dict_update_def)
  have r_s3: "wizard_reachable ?s3"
    using wizard_reachable.press [OF r_s2b, of "?ev4"] unfolding e5 .
  have e6: "fst (tab4 ?s3 ?ev5) = ?s3"
    using wizard_state_machine [OF r_s3, where username = "''annlee''"
          and password = "''short''" and confirm_password = "''short''"
          and security_question = "''What city were you born in?''"
          and security_answer = "''Springfield''", THEN c2, THEN c2, THEN c2, THEN c2, THEN c2,
          THEN conjunct1]
    by (simp add: wizard_init_def dict_update_def)
  have e7: "fst (tab4 ?s3 ?ev6) = ?s4"
    using wizard_state_machine [OF r_s3, where username = "''annlee''"
          and password = "''password1''" and confirm_password = "''password1''"
          and security_question = "''What city were you born in?''"
          and security_answer = "''Springfield''", THEN c2, THEN c2, THEN c2, THEN c2, THEN c2,
          THEN conjunct1]
    by (simp add: wizard_init_def dict_update_def)
  have r_s4: "wizard_reachable ?s4"
    using wizard_reachable.press [OF r_s3, of "?ev6"] unfolding e7 .
  have e8: "fst (tab4 ?s4 Step4_Back) = ?s4b"
    using wizard_state_machine [OF r_s4, THEN c2, THEN c2, THEN c2, THEN c2, THEN c2, THEN c2,
          THEN conjunct1]
    by (simp add: wizard_init_def dict_update_def)
  have r_s4b: "wizard_reachable ?s4b"
    using wizard_reachable.press [OF r_s4, of "Step4_Back"] unfolding e8 .
  have e9: "fst (tab4 ?s4b ?ev6) = ?s4"
    using wizard_state_machine [OF r_s4b, where username = "''annlee''"
          and password = "''password1''" and confirm_password = "''password1''"
          and security_question = "''What city were you born in?''"
          and security_answer = "''Springfield''", THEN c2, THEN c2, THEN c2, THEN c2, THEN c2,
          THEN conjunct1]
    by (simp add: wizard_init_def dict_update_def)
  have e10: "fst (tab4 ?s4 ?ev7) = ?fin"
    using wizard_state_machine [OF r_s4,
          where now = "''2024-05-01 10:00:00''", THEN c2, THEN c2, THEN c2, THEN c2, THEN c2, THEN c2,
          THEN conjunct1]
    by (simp add: wizard_init_def dict_update_def)
  have run: "foldl (\<lambda>s ev. fst (tab4 s ev)) wizard_init
        [Step1_Next ''Ann'' ''Lee'' ''ann@example.com'' ''555-0100'' (Date 2000 1 1),
         Step2_Next ''1 Main St'' '''' ''IL'' ''62701'' ''USA'',
         Step2_Next ''1 Main St'' ''Springfield'' ''IL'' ''62701'' ''USA'',
         Step3_Back,
         Step2_Next ''1 Main St'' ''Chicago'' ''IL'' ''62701'' ''USA'',
         Step3_Next ''annlee'' ''short'' ''short''
           ''What city were you born in?'' ''Springfield'',
         Step3_Next ''annlee'' ''password1'' ''password1''
           ''What city were you born in?'' ''Springfield'',
         Step4_Back,
         Step3_Next ''annlee'' ''password1'' ''password1''
           ''What city were you born in?'' ''Springfield'',
         Step4_Submit ''2024-05-01 10:00:00'']
       = ?fin"
    by (simp only: foldl.simps e1 e2 e3 e4 e5 e6 e7 e8 e9 e10)
  from r_s0 run e8 show ?thesis by blast
qed

section \<open>The digest on a known input\<close>

text \<open>
  The value \<^verbatim>\<open>hashlib.sha256('admin123'.encode()).hexdigest()\<close> that both chapters store for
  the user \<open>admin\<close>, as computed by the model.
\<close>

lemma sha256_admin123:
  "sha256_hexdigest (encode ''admin123'') =
     ''240be518fabd2724ddb6f04eeb1da5967448d7e831c08c8fa822809f74c720a9''"
  by code_simp

end
